theory Spec2Isabelle
  imports Main "HOL-Library.Word"
begin

unbundle bit_operations_syntax

section \<open>Go values\<close>

text \<open>
  A Go \<open>byte\<close> is an 8-bit word, \<open>uint16\<close> and \<open>uint32\<close> are words of their width.
  A Go \<open>string\<close> is an immutable sequence of bytes, so it is a byte list here, and
  \<open>string(p[:i])\<close> is the slice itself; a string literal of the source is written
  \<open>gostr ''...''\<close>. A \<open>[]byte\<close> that may be \<open>nil\<close> is a \<open>byte list option\<close>;
  the outer slices (\<open>[]Field\<close>, \<open>[][]byte\<close>, \<open>[]Row\<close>) are only measured and
  ranged over, so \<open>nil\<close> and the empty slice are both \<open>[]\<close>. Go's \<open>int\<close> is taken
  to be 64 bits wide: \<open>offset + int(size)\<close> with \<open>offset\<close> at most the length of a frame
  body and \<open>size\<close> below \<open>2 ^ 32\<close> cannot overflow it, so offsets are natural numbers.
\<close>

type_synonym byte = "8 word"
type_synonym uint16 = "16 word"
type_synonym uint32 = "32 word"
type_synonym gostring = "byte list"

definition gostr :: "string \<Rightarrow> gostring" where
  "gostr s = map of_char s"

record Field =
  Name :: gostring
  TableOID :: uint32
  AttributeNumber :: uint16
  DataTypeOID :: uint32
  DataTypeSize :: uint16
  TypeModifier :: uint32
  FormatCode :: uint16

record Row =
  Values :: "byte list option list"

record Resultset =
  Fields :: "Field list"
  Rows :: "Row list"
  Result :: gostring

text \<open>
  \<open>IncomingMessage\<close> is \<open>interface{}\<close>, inspected by type switches only: one constructor
  for each struct type, holding the struct's fields in their order.
\<close>

datatype IncomingMessage =
    AuthenticationRequestMessage uint32 "byte list option"
  | ReadyForQueryMessage byte
  | ErrorResponseMessage "byte \<rightharpoonup> gostring"
  | EmptyQueryMessage
  | ParameterStatusMessage gostring gostring
  | BackendKeyDataMessage uint32 uint32
  | CommandCompleteMessage gostring
  | RowDescriptionMessage "Field list"
  | DataRowMessage "byte list option list"

text \<open>
  A value of Go's \<open>error\<close> interface: made by \<open>errors.New\<close>, raised by the runtime
  (\<open>runtime.Error\<close>), or a message whose type has an \<open>Error\<close> method. \<open>nil\<close> is
  \<open>None\<close> of \<open>error option\<close>.
\<close>

datatype error =
    ErrorString string
  | RuntimeError string
  | MessageError IncomingMessage

text \<open>
  The argument of \<open>panic\<close>: a value that implements \<open>error\<close>, or a string built by
  \<open>fmt.Sprintf\<close>. Such a string is named by its format: what the recovering handlers
  ask of the value is whether it is an \<open>error\<close>.
\<close>

datatype panic_value = PanicError error | PanicString string

datatype 'a result = Panic panic_value | Return 'a

subsection \<open>Indexing and slicing, with the runtime's bounds checks\<close>

text \<open>
  Every slice the decoders see has its capacity equal to its length (the frame body is
  \<open>make([]byte, n)\<close>, and \<open>p[lo:]\<close> keeps the end), so a slice expression is checked
  against the length.
\<close>

definition index :: "'a list \<Rightarrow> nat \<Rightarrow> 'a result" where
  "index p i =
     (if i < length p then Return (p ! i)
      else Panic (PanicError (RuntimeError ''index out of range'')))"

definition slice_from :: "'a list \<Rightarrow> nat \<Rightarrow> 'a list result" where
  "slice_from p lo =
     (if lo \<le> length p then Return (drop lo p)
      else Panic (PanicError (RuntimeError ''slice bounds out of range'')))"

definition slice :: "'a list \<Rightarrow> nat \<Rightarrow> nat \<Rightarrow> 'a list result" where
  "slice p lo hi =
     (if lo \<le> hi \<and> hi \<le> length p then Return (take (hi - lo) (drop lo p))
      else Panic (PanicError (RuntimeError ''slice bounds out of range'')))"

section \<open>Decoding primitives\<close>

function decodeCString_loop :: "byte list \<Rightarrow> nat \<Rightarrow> (error + gostring) result" where
  "decodeCString_loop p i =
     (if i < length p then
        (case index p i of
           Panic e \<Rightarrow> Panic e
         | Return b \<Rightarrow>
             if b = 0 then
               (case slice p 0 i of
                  Panic e \<Rightarrow> Panic e
                | Return s \<Rightarrow> Return (Inr s))
             else decodeCString_loop p (i + 1))
      else Return (Inl (ErrorString ''decodeCString: delimeter not found'')))"
  by pat_completeness auto
termination
  by (relation "measure (\<lambda>(p, i). length p - i)") auto

definition decodeCString :: "byte list \<Rightarrow> (error + gostring) result" where
  "decodeCString p = decodeCString_loop p 0"

function unpackUint32_loop :: "byte list \<Rightarrow> nat \<Rightarrow> uint32 \<Rightarrow> uint32 result" where
  "unpackUint32_loop p i r =
     (if i < 4 then
        (case index p i of
           Panic e \<Rightarrow> Panic e
         | Return b \<Rightarrow> unpackUint32_loop p (i + 1) (r OR push_bit (8 * (3 - i)) (ucast b)))
      else Return r)"
  by pat_completeness auto
termination
  by (relation "measure (\<lambda>(p, i, r). 4 - i)") auto

definition unpackUint32 :: "byte list \<Rightarrow> uint32 result" where
  "unpackUint32 p = unpackUint32_loop p 0 0"

function unpackUint16_loop :: "byte list \<Rightarrow> nat \<Rightarrow> uint16 \<Rightarrow> uint16 result" where
  "unpackUint16_loop p i r =
     (if i < 2 then
        (case index p i of
           Panic e \<Rightarrow> Panic e
         | Return b \<Rightarrow> unpackUint16_loop p (i + 1) (r OR push_bit (8 * (1 - i)) (ucast b)))
      else Return r)"
  by pat_completeness auto
termination
  by (relation "measure (\<lambda>(p, i, r). 2 - i)") auto

definition unpackUint16 :: "byte list \<Rightarrow> uint16 result" where
  "unpackUint16 p = unpackUint16_loop p 0 0"

text \<open>
  \<open>decodeUintN(p, &v)\<close> returns an error and leaves \<open>v\<close> alone, or stores the value and
  returns \<open>nil\<close>: \<open>Inl\<close> the error, \<open>Inr\<close> the value stored.
\<close>

definition decodeUint32 :: "byte list \<Rightarrow> (error + uint32) result" where
  "decodeUint32 p =
     (if length p < 4 then
        Return (Inl (ErrorString ''decodeUint32: A buffer should be at least 4 bytes long''))
      else
        (case unpackUint32 p of
           Panic e \<Rightarrow> Panic e
         | Return v \<Rightarrow> Return (Inr v)))"

definition decodeUint16 :: "byte list \<Rightarrow> (error + uint16) result" where
  "decodeUint16 p =
     (if length p < 2 then
        Return (Inl (ErrorString ''decodeUint16: A buffer should be at least 2 bytes long''))
      else
        (case unpackUint16 p of
           Panic e \<Rightarrow> Panic e
         | Return v \<Rightarrow> Return (Inr v)))"

definition decodeUint8 :: "byte list \<Rightarrow> (error + byte) result" where
  "decodeUint8 p =
     (if length p < 1 then
        Return (Inl (ErrorString ''decodeUint8: A buffer should be at least 1 bytes long''))
      else
        (case index p 0 of
           Panic e \<Rightarrow> Panic e
         | Return v \<Rightarrow> Return (Inr v)))"

section \<open>Decoding the incoming messages\<close>

text \<open>
  A factory method returns \<open>(msg, err)\<close>: the message as far as it was filled in, and
  the error or \<open>nil\<close>. Here it returns \<open>Return (msg, err)\<close>, or \<open>Panic\<close> where a bounds
  check of the runtime would fail.
\<close>

function parseErrorResponseMessage_loop ::
  "byte list \<Rightarrow> (byte \<rightharpoonup> gostring) \<Rightarrow> nat \<Rightarrow> (IncomingMessage \<times> error option) result" where
  "parseErrorResponseMessage_loop body flds offset =
     (case slice_from body offset of
        Panic e \<Rightarrow> Panic e
      | Return p \<Rightarrow>
          (case decodeUint8 p of
             Panic e \<Rightarrow> Panic e
           | Return (Inl err) \<Rightarrow> Return (ErrorResponseMessage flds, Some err)
           | Return (Inr fieldType) \<Rightarrow>
               if fieldType = 0 then Return (ErrorResponseMessage flds, None)
               else
                 (case slice_from body (offset + 1) of
                    Panic e \<Rightarrow> Panic e
                  | Return q \<Rightarrow>
                      (case decodeCString q of
                         Panic e \<Rightarrow> Panic e
                       | Return (Inl err) \<Rightarrow> Return (ErrorResponseMessage flds, Some err)
                       | Return (Inr str) \<Rightarrow>
                           parseErrorResponseMessage_loop body (flds(fieldType \<mapsto> str))
                             (offset + 1 + (length str + 1))))))"
  by pat_completeness auto
termination
  by (relation "measure (\<lambda>(body, flds, offset). length body - offset)")
    (auto simp: slice_from_def split: if_splits)

definition parseErrorResponseMessage :: "byte list \<Rightarrow> (IncomingMessage \<times> error option) result" where
  "parseErrorResponseMessage body = parseErrorResponseMessage_loop body Map.empty 0"

text \<open>The methods of \<open>ErrorResponseMessage\<close>; a key that is not in a Go map reads as \<open>""\<close>.\<close>

definition lookup :: "(byte \<rightharpoonup> gostring) \<Rightarrow> char \<Rightarrow> gostring" where
  "lookup flds c = (case flds (of_char c) of None \<Rightarrow> [] | Some s \<Rightarrow> s)"

definition ErrorResponseMessage_Error :: "(byte \<rightharpoonup> gostring) \<Rightarrow> gostring" where
  "ErrorResponseMessage_Error flds =
     gostr ''Vertica '' @ lookup flds CHR ''S'' @ gostr '' '' @ lookup flds CHR ''C''
       @ gostr '': '' @ lookup flds CHR ''M''"

definition ErrorResponseMessage_Code :: "(byte \<rightharpoonup> gostring) \<Rightarrow> gostring" where
  "ErrorResponseMessage_Code flds = lookup flds CHR ''C''"

definition ErrorResponseMessage_Severity :: "(byte \<rightharpoonup> gostring) \<Rightarrow> gostring" where
  "ErrorResponseMessage_Severity flds = lookup flds CHR ''S''"

definition parseEmptyQueryMessage :: "byte list \<Rightarrow> (IncomingMessage \<times> error option) result" where
  "parseEmptyQueryMessage body = Return (EmptyQueryMessage, None)"

definition EmptyQueryMessage_Error :: gostring where
  "EmptyQueryMessage_Error = gostr ''The provided SQL string was empty''"

definition EmptyQueryMessage_Code :: gostring where
  "EmptyQueryMessage_Code = gostr []"

definition EmptyQueryMessage_Severity :: gostring where
  "EmptyQueryMessage_Severity = gostr ''ERROR''"

text \<open>
  \<open>msg.(error)\<close>: the type assertion holds for the two message types that have an
  \<open>Error\<close> method.
\<close>

definition implements_error :: "IncomingMessage \<Rightarrow> bool" where
  "implements_error msg =
     (case msg of ErrorResponseMessage flds \<Rightarrow> True | EmptyQueryMessage \<Rightarrow> True | _ \<Rightarrow> False)"

text \<open>The \<open>Error\<close> and \<open>Code\<close> methods, as called through the \<open>ErrorResponse\<close> interface.\<close>

definition Error :: "IncomingMessage \<Rightarrow> gostring" where
  "Error msg =
     (case msg of
        ErrorResponseMessage flds \<Rightarrow> ErrorResponseMessage_Error flds
      | _ \<Rightarrow> EmptyQueryMessage_Error)"

definition Code :: "IncomingMessage \<Rightarrow> gostring" where
  "Code msg =
     (case msg of
        ErrorResponseMessage flds \<Rightarrow> ErrorResponseMessage_Code flds
      | _ \<Rightarrow> EmptyQueryMessage_Code)"

definition parseAuthenticationRequestMessage ::
  "byte list \<Rightarrow> (IncomingMessage \<times> error option) result" where
  "parseAuthenticationRequestMessage body =
     (case decodeUint32 body of
        Panic e \<Rightarrow> Panic e
      | Return (Inl err) \<Rightarrow> Return (AuthenticationRequestMessage 0 None, Some err)
      | Return (Inr code) \<Rightarrow> Return (AuthenticationRequestMessage code None, None))"

definition parseReadyForQueryMessage :: "byte list \<Rightarrow> (IncomingMessage \<times> error option) result" where
  "parseReadyForQueryMessage body =
     (case decodeUint8 body of
        Panic e \<Rightarrow> Panic e
      | Return (Inl err) \<Rightarrow> Return (ReadyForQueryMessage 0, Some err)
      | Return (Inr status) \<Rightarrow> Return (ReadyForQueryMessage status, None))"

definition parseParameterStatusMessage :: "byte list \<Rightarrow> (IncomingMessage \<times> error option) result" where
  "parseParameterStatusMessage body =
     (case slice_from body 0 of
        Panic e \<Rightarrow> Panic e
      | Return p \<Rightarrow>
          (case decodeCString p of
             Panic e \<Rightarrow> Panic e
           | Return (Inl err) \<Rightarrow> Return (ParameterStatusMessage [] [], Some err)
           | Return (Inr name) \<Rightarrow>
               (case slice_from body (0 + (length name + 1)) of
                  Panic e \<Rightarrow> Panic e
                | Return q \<Rightarrow>
                    (case decodeCString q of
                       Panic e \<Rightarrow> Panic e
                     | Return (Inl err) \<Rightarrow> Return (ParameterStatusMessage name [], Some err)
                     | Return (Inr val) \<Rightarrow> Return (ParameterStatusMessage name val, None)))))"

definition parseBackendKeyDataMessage :: "byte list \<Rightarrow> (IncomingMessage \<times> error option) result" where
  "parseBackendKeyDataMessage body =
     (case decodeUint32 body of
        Panic e \<Rightarrow> Panic e
      | Return (Inl err) \<Rightarrow> Return (BackendKeyDataMessage 0 0, Some err)
      | Return (Inr pid) \<Rightarrow>
          (case slice_from body 4 of
             Panic e \<Rightarrow> Panic e
           | Return p \<Rightarrow>
               (case decodeUint32 p of
                  Panic e \<Rightarrow> Panic e
                | Return (Inl err) \<Rightarrow> Return (BackendKeyDataMessage pid 0, Some err)
                | Return (Inr key) \<Rightarrow> Return (BackendKeyDataMessage pid key, None))))"

definition parseCommandCompleteMessage :: "byte list \<Rightarrow> (IncomingMessage \<times> error option) result" where
  "parseCommandCompleteMessage body =
     (case decodeCString body of
        Panic e \<Rightarrow> Panic e
      | Return (Inl err) \<Rightarrow> Return (CommandCompleteMessage [], Some err)
      | Return (Inr str) \<Rightarrow> Return (CommandCompleteMessage str, None))"

definition zeroField :: Field where
  "zeroField =
     \<lparr>Name = [], TableOID = 0, AttributeNumber = 0, DataTypeOID = 0, DataTypeSize = 0,
      TypeModifier = 0, FormatCode = 0\<rparr>"

text \<open>
  The loop of \<open>parseRowDescriptionMessage\<close>: \<open>field\<close> points into \<open>msg.Fields\<close>, so each
  store is an update of \<open>flds\<close> at \<open>i\<close>, and the message returned with an error holds
  the stores made so far.
\<close>

function parseRowDescriptionMessage_loop ::
  "byte list \<Rightarrow> Field list \<Rightarrow> nat \<Rightarrow> nat \<Rightarrow> (IncomingMessage \<times> error option) result" where
  "parseRowDescriptionMessage_loop body flds i offset =
     (if i < length flds then
        (case slice_from body offset of
           Panic e \<Rightarrow> Panic e
         | Return p \<Rightarrow>
        (case decodeCString p of
           Panic e \<Rightarrow> Panic e
         | Return (Inl err) \<Rightarrow> Return (RowDescriptionMessage flds, Some err)
         | Return (Inr name) \<Rightarrow>
        let flds = flds[i := (flds ! i)\<lparr>Name := name\<rparr>];
            offset = offset + (length name + 1) in
        (case slice_from body offset of
           Panic e \<Rightarrow> Panic e
         | Return p \<Rightarrow>
        (case decodeUint32 p of
           Panic e \<Rightarrow> Panic e
         | Return (Inl err) \<Rightarrow> Return (RowDescriptionMessage flds, Some err)
         | Return (Inr v) \<Rightarrow>
        let flds = flds[i := (flds ! i)\<lparr>TableOID := v\<rparr>];
            offset = offset + 4 in
        (case slice_from body offset of
           Panic e \<Rightarrow> Panic e
         | Return p \<Rightarrow>
        (case decodeUint16 p of
           Panic e \<Rightarrow> Panic e
         | Return (Inl err) \<Rightarrow> Return (RowDescriptionMessage flds, Some err)
         | Return (Inr v) \<Rightarrow>
        let flds = flds[i := (flds ! i)\<lparr>AttributeNumber := v\<rparr>];
            offset = offset + 2 in
        (case slice_from body offset of
           Panic e \<Rightarrow> Panic e
         | Return p \<Rightarrow>
        (case decodeUint32 p of
           Panic e \<Rightarrow> Panic e
         | Return (Inl err) \<Rightarrow> Return (RowDescriptionMessage flds, Some err)
         | Return (Inr v) \<Rightarrow>
        let flds = flds[i := (flds ! i)\<lparr>DataTypeOID := v\<rparr>];
            offset = offset + 4 in
        (case slice_from body offset of
           Panic e \<Rightarrow> Panic e
         | Return p \<Rightarrow>
        (case decodeUint16 p of
           Panic e \<Rightarrow> Panic e
         | Return (Inl err) \<Rightarrow> Return (RowDescriptionMessage flds, Some err)
         | Return (Inr v) \<Rightarrow>
        let flds = flds[i := (flds ! i)\<lparr>DataTypeSize := v\<rparr>];
            offset = offset + 2 in
        (case slice_from body offset of
           Panic e \<Rightarrow> Panic e
         | Return p \<Rightarrow>
        (case decodeUint32 p of
           Panic e \<Rightarrow> Panic e
         | Return (Inl err) \<Rightarrow> Return (RowDescriptionMessage flds, Some err)
         | Return (Inr v) \<Rightarrow>
        let flds = flds[i := (flds ! i)\<lparr>TypeModifier := v\<rparr>];
            offset = offset + 4 in
        (case slice_from body offset of
           Panic e \<Rightarrow> Panic e
         | Return p \<Rightarrow>
        (case decodeUint16 p of
           Panic e \<Rightarrow> Panic e
         | Return (Inl err) \<Rightarrow> Return (RowDescriptionMessage flds, Some err)
         | Return (Inr v) \<Rightarrow>
        let flds = flds[i := (flds ! i)\<lparr>FormatCode := v\<rparr>];
            offset = offset + 2 in
        parseRowDescriptionMessage_loop body flds (i + 1) offset))))))))))))))
      else Return (RowDescriptionMessage flds, None))"
  by pat_completeness auto
termination
  by (relation "measure (\<lambda>(body, flds, i, offset). length flds - i)") auto

definition parseRowDescriptionMessage :: "byte list \<Rightarrow> (IncomingMessage \<times> error option) result" where
  "parseRowDescriptionMessage body =
     (case decodeUint16 body of
        Panic e \<Rightarrow> Panic e
      | Return (Inl err) \<Rightarrow> Return (RowDescriptionMessage [], Some err)
      | Return (Inr numFields) \<Rightarrow>
          parseRowDescriptionMessage_loop body (replicate (unat numFields) zeroField) 0 2)"

text \<open>
  The loop of \<open>parseDataRowMessage\<close>. \<open>vals\<close> is \<open>msg.Values\<close>, made with \<open>numValues\<close>
  \<open>nil\<close> entries; \<open>body[offset : offset+int(size)]\<close> is a slice that is not \<open>nil\<close>,
  also when it is empty.
\<close>

function parseDataRowMessage_loop ::
  "byte list \<Rightarrow> byte list option list \<Rightarrow> nat \<Rightarrow> nat \<Rightarrow> (IncomingMessage \<times> error option) result" where
  "parseDataRowMessage_loop body vals i offset =
     (if i < length vals then
        (case slice_from body offset of
           Panic e \<Rightarrow> Panic e
         | Return p \<Rightarrow>
             (case decodeUint32 p of
                Panic e \<Rightarrow> Panic e
              | Return (Inl err) \<Rightarrow> Return (DataRowMessage vals, Some err)
              | Return (Inr sz) \<Rightarrow>
                  if sz = 0xffffffff then
                    parseDataRowMessage_loop body (vals[i := None]) (i + 1) (offset + 4)
                  else if offset + 4 + unat sz > length body then
                    Return (DataRowMessage vals,
                      Some (ErrorString ''parseDataRowMessage: truncated message''))
                  else
                    (case slice body (offset + 4) (offset + 4 + unat sz) of
                       Panic e \<Rightarrow> Panic e
                     | Return v \<Rightarrow>
                         parseDataRowMessage_loop body (vals[i := Some v]) (i + 1)
                           (offset + 4 + unat sz))))
      else Return (DataRowMessage vals, None))"
  by pat_completeness auto
termination
  by (relation "measure (\<lambda>(body, vals, i, offset). length vals - i)") auto

definition parseDataRowMessage :: "byte list \<Rightarrow> (IncomingMessage \<times> error option) result" where
  "parseDataRowMessage body =
     (case decodeUint16 body of
        Panic e \<Rightarrow> Panic e
      | Return (Inl err) \<Rightarrow> Return (DataRowMessage [], Some err)
      | Return (Inr numValues) \<Rightarrow>
          parseDataRowMessage_loop body (replicate (unat numValues) None) 0 2)"

section \<open>The frame reader\<close>

text \<open>
  The reader is the connection's socket (\<open>net.Conn\<close>). Its state is the bytes the server
  has sent that are not read yet, the requests written to it, and whether it was closed.
  The stream is finite: when the bytes run out the server has closed its side, and a
  read reports end of file. \<open>io.ReadFull\<close> and \<open>io.ReadAtLeast(r, buf, len(buf))\<close> of
  Go's library fill the buffer or report \<open>io.EOF\<close> (nothing read) or
  \<open>io.ErrUnexpectedEOF\<close> (some bytes read); the buffer is returned as it is left.
\<close>

datatype OutgoingMessage =
    SSLRequestMessage
  | StartupMessage gostring gostring
  | PasswordMessage gostring uint32
  | QueryMessage gostring
  | TerminateMessage

record Conn =
  inbound :: "byte list"
  sent :: "OutgoingMessage list"
  closed :: bool

definition ReadFull :: "Conn \<Rightarrow> nat \<Rightarrow> (byte list \<times> error option) \<times> Conn" where
  "ReadFull r n =
     (if n = 0 then (([], None), r)
      else if closed r then
        ((replicate n 0, Some (ErrorString ''use of closed network connection'')), r)
      else if n \<le> length (inbound r) then
        ((take n (inbound r), None), r\<lparr>inbound := drop n (inbound r)\<rparr>)
      else
        ((inbound r @ replicate (n - length (inbound r)) 0,
          Some (if inbound r = [] then ErrorString ''EOF'' else ErrorString ''unexpected EOF'')),
         r\<lparr>inbound := []\<rparr>))"

definition messageFactoryMethods ::
  "byte \<rightharpoonup> (byte list \<Rightarrow> (IncomingMessage \<times> error option) result)" where
  "messageFactoryMethods =
     [of_char CHR ''R'' \<mapsto> parseAuthenticationRequestMessage,
      of_char CHR ''Z'' \<mapsto> parseReadyForQueryMessage,
      of_char CHR ''E'' \<mapsto> parseErrorResponseMessage,
      of_char CHR ''I'' \<mapsto> parseEmptyQueryMessage,
      of_char CHR ''S'' \<mapsto> parseParameterStatusMessage,
      of_char CHR ''K'' \<mapsto> parseBackendKeyDataMessage,
      of_char CHR ''T'' \<mapsto> parseRowDescriptionMessage,
      of_char CHR ''C'' \<mapsto> parseCommandCompleteMessage,
      of_char CHR ''D'' \<mapsto> parseDataRowMessage]"

text \<open>
  \<open>receiveMessage\<close> returns \<open>(message, err)\<close>, \<open>message\<close> being \<open>nil\<close> (\<open>None\<close>) when
  it returns before the factory method is called.
\<close>

definition receiveMessage ::
  "Conn \<Rightarrow> (IncomingMessage option \<times> error option) result \<times> Conn" where
  "receiveMessage r =
     (case ReadFull r 5 of
        ((header, Some err), r1) \<Rightarrow> (Return (None, Some err), r1)
      | ((header, None), r1) \<Rightarrow>
          (case index header 0 of
             Panic e \<Rightarrow> (Panic e, r1)
           | Return messageType \<Rightarrow>
          (case slice header 1 5 of
             Panic e \<Rightarrow> (Panic e, r1)
           | Return h \<Rightarrow>
          (case unpackUint32 h of
             Panic e \<Rightarrow> (Panic e, r1)
           | Return messageSize \<Rightarrow>
               if messageSize \<ge> 4 then
                 (case (if messageSize > 4 then ReadFull r1 (unat (messageSize - 4))
                        else ((replicate (unat (messageSize - 4)) 0, None), r1)) of
                    ((messageContent, Some err), r2) \<Rightarrow> (Return (None, Some err), r2)
                  | ((messageContent, None), r2) \<Rightarrow>
                      (case messageFactoryMethods messageType of
                         None \<Rightarrow> (Panic (PanicString ''Unknown message type: %c''), r2)
                       | Some factoryMethod \<Rightarrow>
                           (case factoryMethod messageContent of
                              Panic e \<Rightarrow> (Panic e, r2)
                            | Return (message, err) \<Rightarrow> (Return (Some message, err), r2))))
               else
                 (Return (None, Some (ErrorString ''A message should be at least 4 bytes long'')),
                  r1)))))"

section \<open>The connection\<close>

text \<open>
  \<open>*tls.Config\<close> is opaque. The mutex \<open>l\<close> of a \<open>Connection\<close> is left out: one caller
  at a time is considered. \<open>TrafficLogger\<close> only prints and is left out as well.
\<close>

typedecl tls_Config

record ConnectionInfo =
  Address :: gostring
  User :: gostring
  Database :: gostring
  Password :: gostring
  SslConfig :: "tls_Config option"

record Connection =
  socket :: "Conn option"
  parameters :: "(gostring \<rightharpoonup> gostring) option"
  backendPid :: uint32
  backendKey :: uint32
  transactionStatus :: byte

text \<open>
  Modelled from the spec: \<open>SendMessage\<close> (the frame writer) is not under \<open>src/\<close>.
  It writes the request to the transport (2, 4.1: encoding never fails for well-formed
  inputs); a write to a closed transport reports a failure (4.2, Close).
\<close>

definition SendMessage :: "Conn \<Rightarrow> OutgoingMessage \<Rightarrow> error option \<times> Conn" where
  "SendMessage w msg =
     (if closed w then (Some (ErrorString ''use of closed network connection''), w)
      else (None, w\<lparr>sent := sent w @ [msg]\<rparr>))"

text \<open>
  Modelled from the spec: \<open>ReadMessage\<close> is not under \<open>src/\<close>. It is the frame reader
  of 4.1 on the connection's socket, which under \<open>src/\<close> is \<open>receiveMessage\<close>.
\<close>

definition ReadMessage :: "Conn \<Rightarrow> (IncomingMessage option \<times> error option) result \<times> Conn" where
  "ReadMessage r = receiveMessage r"

text \<open>A method call on a \<open>nil\<close> socket, or a store through a \<open>nil\<close> pointer.\<close>

definition nilDereference :: panic_value where
  "nilDereference = PanicError (RuntimeError ''invalid memory address or nil pointer dereference'')"

definition Connection_sendMessage :: "Connection \<Rightarrow> OutgoingMessage \<Rightarrow> unit result \<times> Connection" where
  "Connection_sendMessage c msg =
     (case socket c of
        None \<Rightarrow> (Panic nilDereference, c)
      | Some w \<Rightarrow>
          (case SendMessage w msg of
             (Some err, w1) \<Rightarrow> (Panic (PanicError err), c\<lparr>socket := Some w1\<rparr>)
           | (None, w1) \<Rightarrow> (Return (), c\<lparr>socket := Some w1\<rparr>)))"

definition Connection_receiveMessage :: "Connection \<Rightarrow> IncomingMessage option result \<times> Connection" where
  "Connection_receiveMessage c =
     (case socket c of
        None \<Rightarrow> (Panic nilDereference, c)
      | Some r \<Rightarrow>
          (case ReadMessage r of
             (Panic e, r1) \<Rightarrow> (Panic e, c\<lparr>socket := Some r1\<rparr>)
           | (Return (msg, Some err), r1) \<Rightarrow> (Panic (PanicError err), c\<lparr>socket := Some r1\<rparr>)
           | (Return (msg, None), r1) \<Rightarrow> (Return msg, c\<lparr>socket := Some r1\<rparr>)))"

definition isReadyForQuery :: "Connection \<Rightarrow> IncomingMessage option \<Rightarrow> bool \<times> Connection" where
  "isReadyForQuery c msg =
     (case msg of
        Some (ReadyForQueryMessage status) \<Rightarrow> (True, c\<lparr>transactionStatus := status\<rparr>)
      | _ \<Rightarrow> (False, c))"

definition handleStatelessMessage :: "Connection \<Rightarrow> IncomingMessage option \<Rightarrow> unit result \<times> Connection" where
  "handleStatelessMessage c msg =
     (case msg of
        Some (ParameterStatusMessage name val) \<Rightarrow>
          (case parameters c of
             None \<Rightarrow> (Panic (PanicError (RuntimeError ''assignment to entry in nil map'')), c)
           | Some m \<Rightarrow> (Return (), c\<lparr>parameters := Some (m(name \<mapsto> val))\<rparr>))
      | Some (BackendKeyDataMessage pid key) \<Rightarrow>
          (Return (), c\<lparr>backendPid := pid, backendKey := key\<rparr>)
      | _ \<Rightarrow> (Panic (PanicString ''Unexpected message: %#+v''), c))"

definition remaining :: "Connection \<Rightarrow> nat" where
  "remaining c = (case socket c of None \<Rightarrow> 0 | Some r \<Rightarrow> length (inbound r))"

lemma ReadFull_shrinks:
  "ReadFull r n = ((buf, None), r1) \<Longrightarrow> 0 < n \<Longrightarrow> length (inbound r1) < length (inbound r)"
  by (auto simp: ReadFull_def split: if_splits)

lemma ReadFull_le:
  "ReadFull r n = (out, r1) \<Longrightarrow> length (inbound r1) \<le> length (inbound r)"
  by (auto simp: ReadFull_def split: if_splits)

lemma receiveMessage_shrinks:
  assumes "receiveMessage r = (Return (msg, None), r1)"
  shows "length (inbound r1) < length (inbound r)"
proof -
  obtain header e0 r0 where h: "ReadFull r 5 = ((header, e0), r0)"
    by (metis prod.exhaust)
  show ?thesis
  proof (cases e0)
    case (Some err)
    with assms h show ?thesis by (simp add: receiveMessage_def)
  next
    case None
    with h have lt: "length (inbound r0) < length (inbound r)"
      using ReadFull_shrinks by fastforce
    have "length (inbound r1) \<le> length (inbound r0)"
      using assms h None
      by (auto simp: receiveMessage_def split: result.splits if_splits prod.splits option.splits
          dest: ReadFull_le)
    with lt show ?thesis by simp
  qed
qed

lemma Connection_receiveMessage_shrinks:
  "Connection_receiveMessage c = (Return msg, c1) \<Longrightarrow> remaining c1 < remaining c"
  by (auto simp: Connection_receiveMessage_def remaining_def ReadMessage_def
      split: option.splits result.splits prod.splits dest: receiveMessage_shrinks)

lemma isReadyForQuery_remaining:
  "isReadyForQuery c msg = (b, c1) \<Longrightarrow> remaining c1 = remaining c"
  by (auto simp: isReadyForQuery_def remaining_def split: option.splits IncomingMessage.splits)

lemma handleStatelessMessage_remaining:
  "handleStatelessMessage c msg = (out, c1) \<Longrightarrow> remaining c1 = remaining c"
  by (auto simp: handleStatelessMessage_def remaining_def split: option.splits IncomingMessage.splits)

lemma Connection_sendMessage_remaining:
  "Connection_sendMessage c msg = (out, c1) \<Longrightarrow> remaining c1 = remaining c"
  by (auto simp: Connection_sendMessage_def SendMessage_def remaining_def split: option.splits if_splits)

text \<open>
  Modelled from the spec: the authentication codes \<open>AuthenticationOK\<close> and
  \<open>AuthenticationCleartextPassword\<close> are declared outside \<open>src/\<close>. They are the
  codes "OK" and "cleartext password" of the authentication challenge (4.2), 0 and 3 in
  the wire protocol the spec derives from.
\<close>

definition AuthenticationOK :: uint32 where
  "AuthenticationOK = 0"

definition AuthenticationCleartextPassword :: uint32 where
  "AuthenticationCleartextPassword = 3"

definition SslNotSupported :: error where
  "SslNotSupported = ErrorString ''SSL not available on this server''"

definition AuthenticationMethodNotSupported :: error where
  "AuthenticationMethodNotSupported = ErrorString ''Authentication method not supported''"

function initConnection_loop :: "Connection \<Rightarrow> ConnectionInfo \<Rightarrow> unit result \<times> Connection" where
  "initConnection_loop c info =
     (case Connection_receiveMessage c of
        (Panic e, c1) \<Rightarrow> (Panic e, c1)
      | (Return msg, c1) \<Rightarrow>
          (case isReadyForQuery c1 msg of
             (True, c2) \<Rightarrow> (Return (), c2)
           | (False, c2) \<Rightarrow>
               (case msg of
                  Some (AuthenticationRequestMessage authCode salt) \<Rightarrow>
                    if authCode = AuthenticationOK then initConnection_loop c2 info
                    else if authCode = AuthenticationCleartextPassword then
                      (case Connection_sendMessage c2 (PasswordMessage (Password info) authCode) of
                         (Panic e, c3) \<Rightarrow> (Panic e, c3)
                       | (Return u, c3) \<Rightarrow> initConnection_loop c3 info)
                    else (Panic (PanicError AuthenticationMethodNotSupported), c2)
                | Some (ErrorResponseMessage flds) \<Rightarrow>
                    (Panic (PanicError (MessageError (ErrorResponseMessage flds))), c2)
                | _ \<Rightarrow>
                    (case handleStatelessMessage c2 msg of
                       (Panic e, c3) \<Rightarrow> (Panic e, c3)
                     | (Return u, c3) \<Rightarrow> initConnection_loop c3 info))))"
  by pat_completeness auto
termination
  apply (relation "measure (\<lambda>(c, info). remaining c)")
  apply simp
  apply (auto dest!: Connection_receiveMessage_shrinks [OF sym] isReadyForQuery_remaining [OF sym]
      handleStatelessMessage_remaining [OF sym] Connection_sendMessage_remaining [OF sym])
  done


definition initConnection :: "Connection \<Rightarrow> ConnectionInfo \<Rightarrow> unit result \<times> Connection" where
  "initConnection c info =
     (case Connection_sendMessage c (StartupMessage (User info) (Database info)) of
        (Panic e, c1) \<Rightarrow> (Panic e, c1)
      | (Return u, c1) \<Rightarrow> initConnection_loop c1 info)"

text \<open>
  The loop of \<open>Query\<close>, on the connection and the named results \<open>resultset\<close> (a pointer,
  \<open>nil\<close> or a fresh \<open>Resultset\<close>) and \<open>queryError\<close>. It ends by leaving the loop or by
  a panic; both named results are returned either way, since the deferred handler
  returns them as they stand.
\<close>

function Query_loop ::
  "Connection \<Rightarrow> Resultset option \<Rightarrow> error option \<Rightarrow>
     unit result \<times> Resultset option \<times> error option \<times> Connection" where
  "Query_loop c resultset queryError =
     (case Connection_receiveMessage c of
        (Panic e, c1) \<Rightarrow> (Panic e, resultset, queryError, c1)
      | (Return msg, c1) \<Rightarrow>
          (case isReadyForQuery c1 msg of
             (True, c2) \<Rightarrow> (Return (), resultset, queryError, c2)
           | (False, c2) \<Rightarrow>
               (case msg of
                  Some EmptyQueryMessage \<Rightarrow>
                    Query_loop c2 resultset (Some (MessageError EmptyQueryMessage))
                | Some (ErrorResponseMessage flds) \<Rightarrow>
                    Query_loop c2 resultset (Some (MessageError (ErrorResponseMessage flds)))
                | Some (RowDescriptionMessage flds) \<Rightarrow>
                    Query_loop c2 (Some \<lparr>Fields = flds, Rows = [], Result = []\<rparr>) queryError
                | Some (DataRowMessage vals) \<Rightarrow>
                    (case resultset of
                       None \<Rightarrow> (Panic nilDereference, resultset, queryError, c2)
                     | Some rs \<Rightarrow>
                         Query_loop c2 (Some (rs\<lparr>Rows := Rows rs @ [\<lparr>Values = vals\<rparr>]\<rparr>))
                           queryError)
                | Some (CommandCompleteMessage res) \<Rightarrow>
                    (case resultset of
                       None \<Rightarrow> (Panic nilDereference, resultset, queryError, c2)
                     | Some rs \<Rightarrow> Query_loop c2 (Some (rs\<lparr>Result := res\<rparr>)) queryError)
                | _ \<Rightarrow>
                    (case handleStatelessMessage c2 msg of
                       (Panic e, c3) \<Rightarrow> (Panic e, resultset, queryError, c3)
                     | (Return u, c3) \<Rightarrow> Query_loop c3 resultset queryError))))"
  by pat_completeness auto
termination
  apply (relation "measure (\<lambda>(c, resultset, queryError). remaining c)")
  apply simp
  apply (auto dest!: Connection_receiveMessage_shrinks [OF sym] isReadyForQuery_remaining [OF sym]
      handleStatelessMessage_remaining [OF sym])
  done

definition resetConnection :: "Connection \<Rightarrow> Connection" where
  "resetConnection connection =
     connection\<lparr>socket := map_option (\<lambda>w. w\<lparr>closed := True\<rparr>) (socket connection),
       parameters := Some Map.empty, backendPid := 0, backendKey := 0\<rparr>"

text \<open>
  \<open>r.(error)\<close> in a deferred handler, \<open>r\<close> being the recovered value: the error, or a
  new panic (a \<open>runtime.TypeAssertionError\<close>) when \<open>r\<close> is a string.
\<close>

definition assertError :: "panic_value \<Rightarrow> error result" where
  "assertError r =
     (case r of
        PanicError e \<Rightarrow> Return e
      | PanicString s \<Rightarrow>
          Panic (PanicError (RuntimeError
            ''interface conversion: interface {} is string, not error'')))"

definition Close :: "Connection \<Rightarrow> error option result \<times> Connection" where
  "Close c =
     (case Connection_sendMessage c TerminateMessage of
        (Return u, c1) \<Rightarrow> (Return None, resetConnection c1)
      | (Panic r, c1) \<Rightarrow>
          (case assertError r of
             Panic e \<Rightarrow> (Panic e, resetConnection c1)
           | Return err \<Rightarrow> (Return (Some err), resetConnection c1)))"

text \<open>
  The deferred handler of \<open>Query\<close> after a panic with value \<open>r\<close>: \<open>c.Close()\<close>, whose
  result is dropped, then \<open>queryError = r.(error)\<close>.
\<close>

definition Query_recover ::
  "panic_value \<Rightarrow> Resultset option \<Rightarrow> Connection \<Rightarrow>
     (Resultset option \<times> error option) result \<times> Connection" where
  "Query_recover r resultset c =
     (case Close c of
        (Panic e, c1) \<Rightarrow> (Panic e, c1)
      | (Return closeErr, c1) \<Rightarrow>
          (case assertError r of
             Panic e \<Rightarrow> (Panic e, c1)
           | Return err \<Rightarrow> (Return (resultset, Some err), c1)))"

text \<open>
  The body of \<open>Query\<close>, as far as it runs: it ends by leaving the loop or by a panic,
  with the named results as they stand then. \<open>Query\<close> is the body under its deferred
  handler.
\<close>

definition Query_body ::
  "Connection \<Rightarrow> gostring \<Rightarrow> unit result \<times> Resultset option \<times> error option \<times> Connection" where
  "Query_body c sql =
     (case Connection_sendMessage c (QueryMessage sql) of
        (Panic r, c1) \<Rightarrow> (Panic r, None, None, c1)
      | (Return u, c1) \<Rightarrow> Query_loop c1 None None)"

definition Query ::
  "Connection \<Rightarrow> gostring \<Rightarrow> (Resultset option \<times> error option) result \<times> Connection" where
  "Query c sql =
     (case Query_body c sql of
        (Panic r, resultset, queryError, c1) \<Rightarrow> Query_recover r resultset c1
      | (Return u, resultset, queryError, c1) \<Rightarrow> (Return (resultset, queryError), c1))"

text \<open>
  \<open>Connect\<close> meets the network through \<open>net.Dial\<close> and the TLS handshake of
  \<open>crypto/tls\<close>; both are parameters: \<open>Dial\<close> gives the error or the socket for an
  address, \<open>Handshake\<close> the error or \<open>nil\<close> and the socket through which the
  decrypted stream is read.
\<close>

record Network =
  Dial :: "gostring \<Rightarrow> error + Conn"
  Handshake :: "Conn \<Rightarrow> tls_Config \<Rightarrow> error option \<times> Conn"

definition zeroConnection :: Connection where
  "zeroConnection =
     \<lparr>socket = None, parameters = None, backendPid = 0, backendKey = 0, transactionStatus = 0\<rparr>"

text \<open>The deferred handler of \<open>Connect\<close> after a panic with value \<open>r\<close>.\<close>

definition Connect_recover :: "panic_value \<Rightarrow> Connection \<Rightarrow> (Connection \<times> error option) result" where
  "Connect_recover r connection =
     (case assertError r of
        Panic e \<Rightarrow> Panic e
      | Return err \<Rightarrow> Return (resetConnection connection, Some err))"

definition Connect_init :: "Connection \<Rightarrow> ConnectionInfo \<Rightarrow> (Connection \<times> error option) result" where
  "Connect_init connection info =
     (case initConnection (connection\<lparr>parameters := Some Map.empty\<rparr>) info of
        (Panic r, c1) \<Rightarrow> Connect_recover r c1
      | (Return u, c1) \<Rightarrow> Return (c1, None))"

definition Connect :: "Network \<Rightarrow> ConnectionInfo \<Rightarrow> (Connection \<times> error option) result" where
  "Connect net info =
     (case Dial net (Address info) of
        Inl dialError \<Rightarrow> Connect_recover (PanicError dialError) zeroConnection
      | Inr sock \<Rightarrow>
          (case SslConfig info of
             None \<Rightarrow> Connect_init (zeroConnection\<lparr>socket := Some sock\<rparr>) info
           | Some config \<Rightarrow>
               (case Connection_sendMessage (zeroConnection\<lparr>socket := Some sock\<rparr>)
                       SSLRequestMessage of
                  (Panic r, c1) \<Rightarrow> Connect_recover r c1
                | (Return u, c1) \<Rightarrow>
                    (case socket c1 of
                       None \<Rightarrow> Connect_recover nilDereference c1
                     | Some r \<Rightarrow>
                         (case ReadFull r 1 of
                            ((sslResponse, readErr), r1) \<Rightarrow>
                              (case index sslResponse 0 of
                                 Panic e \<Rightarrow> Connect_recover e (c1\<lparr>socket := Some r1\<rparr>)
                               | Return b \<Rightarrow>
                                   if b = of_char CHR ''S'' then
                                     (case Handshake net r1 config of
                                        (Some tlsError, r2) \<Rightarrow>
                                          Connect_recover (PanicError tlsError)
                                            (c1\<lparr>socket := Some r2\<rparr>)
                                      | (None, r2) \<Rightarrow>
                                          Connect_init (c1\<lparr>socket := Some r2\<rparr>) info)
                                   else
                                     Connect_recover (PanicError SslNotSupported)
                                       (c1\<lparr>socket := Some r1\<rparr>)))))))"

section \<open>Vocabulary of the properties\<close>

text \<open>
  The server's side of the encoding, for stating what the decoders do on well-formed
  input: big-endian integers, a value of a data row (length and bytes, or the length
  \<open>0xFFFFFFFF\<close> for SQL NULL), and a frame. A value can be encoded when its length
  fits the length field and is not the NULL sentinel.
\<close>

definition be32 :: "uint32 \<Rightarrow> byte list" where
  "be32 v = [ucast (drop_bit 24 v), ucast (drop_bit 16 v), ucast (drop_bit 8 v), ucast v]"

definition be16 :: "uint16 \<Rightarrow> byte list" where
  "be16 v = [ucast (drop_bit 8 v), ucast v]"

definition encodeValue :: "byte list option \<Rightarrow> byte list" where
  "encodeValue v =
     (case v of None \<Rightarrow> be32 0xffffffff | Some bs \<Rightarrow> be32 (of_nat (length bs)) @ bs)"

definition encodable :: "byte list option \<Rightarrow> bool" where
  "encodable v = (case v of None \<Rightarrow> True | Some bs \<Rightarrow> length bs < 2 ^ 32 - 1)"

definition frame :: "char \<Rightarrow> byte list \<Rightarrow> byte list" where
  "frame tag body = of_char tag # be32 (of_nat (length body + 4)) @ body"

text \<open>A socket just opened, on which the server sends \<open>bytes\<close> and then closes its side.\<close>

definition server :: "byte list \<Rightarrow> Conn" where
  "server bytes = \<lparr>inbound = bytes, sent = [], closed = False\<rparr>"

text \<open>
  \<open>delivers r msgs r'\<close>: the next frames on the socket \<open>r\<close> are read by the frame
  reader as the messages \<open>msgs\<close>, in this order and without error, and leave the
  socket as \<open>r'\<close>.
\<close>

fun delivers :: "Conn \<Rightarrow> IncomingMessage list \<Rightarrow> Conn \<Rightarrow> bool" where
  "delivers r [] r' = (r' = r)"
| "delivers r (m # ms) r' =
     (case ReadMessage r of
        (Return (Some m', None), r1) \<Rightarrow> m' = m \<and> delivers r1 ms r'
      | _ \<Rightarrow> False)"

text \<open>The messages that only update the session: parameter status and backend key data.\<close>

definition stateless :: "IncomingMessage \<Rightarrow> bool" where
  "stateless m =
     (case m of
        ParameterStatusMessage name val \<Rightarrow> True
      | BackendKeyDataMessage pid key \<Rightarrow> True
      | _ \<Rightarrow> False)"



text \<open>
  A valid row-description/data-row sequence: every data row comes after a row
  description and has as many values as the latest row description has fields.
  \<open>n\<close> is the number of fields of the latest row description, if there was one.
\<close>

fun rows_match :: "nat option \<Rightarrow> IncomingMessage list \<Rightarrow> bool" where
  "rows_match n [] = True"
| "rows_match n (RowDescriptionMessage flds # ms) = rows_match (Some (length flds)) ms"
| "rows_match n (DataRowMessage vals # ms) = (n = Some (length vals) \<and> rows_match n ms)"
| "rows_match n (m # ms) = rows_match n ms"

text \<open>The connection is torn down: no open socket, and the session fields reset.\<close>

definition torn_down :: "Connection \<Rightarrow> bool" where
  "torn_down c =
     ((case socket c of None \<Rightarrow> True | Some w \<Rightarrow> closed w)
      \<and> parameters c = Some Map.empty \<and> backendPid c = 0 \<and> backendKey c = 0)"

text \<open>A connection as a handshake leaves it, on the socket \<open>r\<close>.\<close>

definition connected :: "Conn \<Rightarrow> Connection" where
  "connected r =
     \<lparr>socket = Some r, parameters = Some Map.empty, backendPid = 42, backendKey = 99,
      transactionStatus = of_char CHR ''I''\<rparr>"


text \<open>
  Concrete inputs: a network without TLS whose server sends \<open>bytes\<close>, a configuration
  for it, and the server's bytes for a handshake, for a query that fails with a syntax
  error, for a statement that returns no rows, and for a query with one row.
\<close>

definition handshake_bytes :: "byte list" where
  "handshake_bytes =
     frame CHR ''R'' (be32 AuthenticationOK)
     @ frame CHR ''S'' (gostr ''x'' @ [0] @ gostr ''1'' @ [0])
     @ frame CHR ''K'' (be32 42 @ be32 99)
     @ frame CHR ''Z'' [of_char CHR ''I'']"

definition plain_network :: "byte list \<Rightarrow> Network" where
  "plain_network bytes = \<lparr>Dial = (\<lambda>address. Inr (server bytes)), Handshake = (\<lambda>r config. (None, r))\<rparr>"

definition plain_info :: ConnectionInfo where
  "plain_info =
     \<lparr>Address = gostr ''127.0.0.1:5433'', User = gostr ''dbadmin'', Database = gostr ''db'',
      Password = gostr ''secret'', SslConfig = None\<rparr>"


definition command_only_bytes :: "byte list" where
  "command_only_bytes =
     frame CHR ''C'' (gostr ''INSERT 0 1'' @ [0]) @ frame CHR ''Z'' [of_char CHR ''I'']"


section \<open>Properties of the decoders\<close>

declare decodeCString_loop.simps [simp del] unpackUint32_loop.simps [simp del]
  unpackUint16_loop.simps [simp del]

lemma index_in_range [simp]: "i < length p \<Longrightarrow> index p i = Return (p ! i)"
  by (simp add: index_def)

lemma decodeCString_loop_eq:
  "i \<le> length p \<Longrightarrow>
   decodeCString_loop p i =
     (if 0 \<in> set (drop i p)
      then Return (Inr (take (i + length (takeWhile (\<lambda>b. b \<noteq> 0) (drop i p))) p))
      else Return (Inl (ErrorString ''decodeCString: delimeter not found'')))"
proof (induction p i rule: decodeCString_loop.induct)
  case (1 p i)
  show ?case
  proof (cases "i < length p")
    case False
    with "1.prems" show ?thesis
      by (subst decodeCString_loop.simps) simp
  next
    case True
    then have d: "drop i p = p ! i # drop (Suc i) p"
      by (simp add: Cons_nth_drop_Suc)
    show ?thesis
    proof (cases "p ! i = 0")
      case True
      with \<open>i < length p\<close> d show ?thesis
        by (subst decodeCString_loop.simps) (simp add: slice_def)
    next
      case False
      with \<open>i < length p\<close> have "decodeCString_loop p i = decodeCString_loop p (i + 1)"
        by (subst decodeCString_loop.simps) simp
      moreover have "decodeCString_loop p (i + 1) =
        (if 0 \<in> set (drop (i + 1) p)
         then Return (Inr (take (i + 1 + length (takeWhile (\<lambda>b. b \<noteq> 0) (drop (i + 1) p))) p))
         else Return (Inl (ErrorString ''decodeCString: delimeter not found'')))"
        using "1.IH" [of "p ! i"] \<open>i < length p\<close> False by simp
      ultimately show ?thesis
        using d False by simp
    qed
  qed
qed

lemma decodeCString_eq:
  "decodeCString p =
     (if 0 \<in> set p then Return (Inr (takeWhile (\<lambda>b. b \<noteq> 0) p))
      else Return (Inl (ErrorString ''decodeCString: delimeter not found'')))"
  using decodeCString_loop_eq [of 0 p] takeWhile_eq_take [of "\<lambda>b. b \<noteq> 0" p]
  by (simp add: decodeCString_def)

lemma unpackUint32_cons:
  "unpackUint32 (a # b # c # d # rest) =
     Return (push_bit 24 (ucast a) OR push_bit 16 (ucast b) OR push_bit 8 (ucast c) OR ucast d)"
  by (simp add: unpackUint32_def unpackUint32_loop.simps [of "a # b # c # d # rest"] or.assoc)

lemma unpackUint16_cons:
  "unpackUint16 (a # b # rest) = Return (push_bit 8 (ucast a) OR ucast b)"
  by (simp add: unpackUint16_def unpackUint16_loop.simps [of "a # b # rest"])

lemma length_ge_4E:
  assumes "4 \<le> length p"
  obtains a b c d rest where "p = a # b # c # d # rest"
proof -
  from assms obtain a p1 where "p = a # p1" by (cases p) auto
  moreover with assms obtain b p2 where "p1 = b # p2" by (cases p1) auto
  moreover with assms calculation obtain c p3 where "p2 = c # p3" by (cases p2) auto
  moreover with assms calculation obtain d p4 where "p3 = d # p4" by (cases p3) auto
  ultimately show ?thesis using that by blast
qed

lemma length_ge_2E:
  assumes "2 \<le> length p"
  obtains a b rest where "p = a # b # rest"
proof -
  from assms obtain a p1 where "p = a # p1" by (cases p) auto
  moreover with assms obtain b p2 where "p1 = b # p2" by (cases p1) auto
  ultimately show ?thesis using that by blast
qed

lemma unpackUint32_total: "4 \<le> length p \<Longrightarrow> \<exists>v. unpackUint32 p = Return v"
  by (erule length_ge_4E) (simp add: unpackUint32_cons)

lemma unpackUint16_total: "2 \<le> length p \<Longrightarrow> \<exists>v. unpackUint16 p = Return v"
  by (erule length_ge_2E) (simp add: unpackUint16_cons)

lemma be32_roundtrip:
  "(push_bit 24 (ucast (ucast (drop_bit 24 v :: uint32) :: byte))
      OR push_bit 16 (ucast (ucast (drop_bit 16 v) :: byte))
      OR push_bit 8 (ucast (ucast (drop_bit 8 v) :: byte))
      OR ucast (ucast v :: byte) :: uint32) = v"
proof (rule bit_word_eqI)
  fix n :: nat
  assume "n < LENGTH(32)"
  then have n: "n < 32" by simp
  consider "n < 8" | "8 \<le> n" "n < 16" | "16 \<le> n" "n < 24" | "24 \<le> n"
    by linarith
  then show "bit (push_bit 24 (ucast (ucast (drop_bit 24 v :: uint32) :: byte))
      OR push_bit 16 (ucast (ucast (drop_bit 16 v) :: byte))
      OR push_bit 8 (ucast (ucast (drop_bit 8 v) :: byte))
      OR ucast (ucast v :: byte) :: uint32) n = bit v n"
    using n by cases (auto simp: bit_simps)
qed

lemma be16_roundtrip:
  "(push_bit 8 (ucast (ucast (drop_bit 8 v :: uint16) :: byte)) OR ucast (ucast v :: byte) :: uint16) = v"
proof (rule bit_word_eqI)
  fix n :: nat
  assume "n < LENGTH(16)"
  then have n: "n < 16" by simp
  consider "n < 8" | "8 \<le> n" by linarith
  then show "bit (push_bit 8 (ucast (ucast (drop_bit 8 v :: uint16) :: byte))
      OR ucast (ucast v :: byte) :: uint16) n = bit v n"
    using n by cases (auto simp: bit_simps)
qed

lemma unpackUint32_be32: "unpackUint32 (be32 v @ rest) = Return v"
  by (simp add: unpackUint32_cons be32_def be32_roundtrip)

lemma unpackUint16_be16: "unpackUint16 (be16 v @ rest) = Return v"
  by (simp add: unpackUint16_cons be16_def be16_roundtrip)

lemma decodeUint32_total: "\<exists>r. decodeUint32 p = Return r"
  using unpackUint32_total [of p] by (auto simp: decodeUint32_def)

lemma decodeUint16_total: "\<exists>r. decodeUint16 p = Return r"
  using unpackUint16_total [of p] by (auto simp: decodeUint16_def)

lemma decodeUint32_Inr: "decodeUint32 p = Return (Inr v) \<Longrightarrow> 4 \<le> length p"
  by (auto simp: decodeUint32_def split: if_splits)

lemma decodeUint16_Inr: "decodeUint16 p = Return (Inr v) \<Longrightarrow> 2 \<le> length p"
  by (auto simp: decodeUint16_def split: if_splits)

lemma decodeUint8_eq:
  "decodeUint8 p =
     (case p of [] \<Rightarrow> Return (Inl (ErrorString ''decodeUint8: A buffer should be at least 1 bytes long''))
      | b # rest \<Rightarrow> Return (Inr b))"
  by (cases p) (simp_all add: decodeUint8_def)

lemma decodeUint32_be32: "decodeUint32 (be32 v @ rest) = Return (Inr v)"
  by (simp add: decodeUint32_def unpackUint32_be32) (simp add: be32_def)

lemma decodeUint16_be16: "decodeUint16 (be16 v @ rest) = Return (Inr v)"
  by (simp add: decodeUint16_def unpackUint16_be16) (simp add: be16_def)

declare parseErrorResponseMessage_loop.simps [simp del]
  parseRowDescriptionMessage_loop.simps [simp del] parseDataRowMessage_loop.simps [simp del]

lemma slice_from_in_range [simp]: "lo \<le> length p \<Longrightarrow> slice_from p lo = Return (drop lo p)"
  by (simp add: slice_from_def)

lemma length_takeWhile_less:
  "x \<in> set xs \<Longrightarrow> \<not> P x \<Longrightarrow> length (takeWhile P xs) < length xs"
  by (induction xs) auto

lemma decodeCString_total: "\<exists>r. decodeCString p = Return r"
  by (simp add: decodeCString_eq)

lemma decodeCString_Inr:
  "decodeCString p = Return (Inr str) \<Longrightarrow> length str + 1 \<le> length p"
  using length_takeWhile_less [of 0 p "\<lambda>b. b \<noteq> 0"]
  by (auto simp: decodeCString_eq split: if_splits)

lemma decodeUint8_total: "\<exists>r. decodeUint8 p = Return r"
  by (cases p) (simp_all add: decodeUint8_eq)

lemma decodeUint8_Inr: "decodeUint8 p = Return (Inr v) \<Longrightarrow> 1 \<le> length p"
  by (cases p) (simp_all add: decodeUint8_eq)

lemma parseErrorResponseMessage_loop_total:
  "offset \<le> length body \<Longrightarrow>
   \<exists>m e. parseErrorResponseMessage_loop body flds offset = Return (m, e)"
proof (induction body flds offset rule: parseErrorResponseMessage_loop.induct)
  case (1 body flds offset)
  have s1: "slice_from body offset = Return (drop offset body)"
    using "1.prems" by simp
  from decodeUint8_total obtain r1 where r1: "decodeUint8 (drop offset body) = Return r1"
    by blast
  show ?case
  proof (cases r1)
    case (Inl err)
    with r1 s1 show ?thesis
      by (subst parseErrorResponseMessage_loop.simps) simp
  next
    case (Inr fieldType)
    with r1 have len: "offset + 1 \<le> length body"
      using decodeUint8_Inr [of "drop offset body" fieldType] by simp
    then have s2: "slice_from body (offset + 1) = Return (drop (offset + 1) body)"
      by simp
    from decodeCString_total obtain r2 where r2: "decodeCString (drop (offset + 1) body) = Return r2"
      by blast
    show ?thesis
    proof (cases "fieldType = 0")
      case True
      with r1 Inr s1 show ?thesis
        by (subst parseErrorResponseMessage_loop.simps) simp
    next
      case False
      show ?thesis
      proof (cases r2)
        case (Inl err)
        with r1 r2 Inr False s1 s2 show ?thesis
          by (subst parseErrorResponseMessage_loop.simps) simp
      next
        case str: (Inr str)
        with r2 have len2: "offset + 1 + (length str + 1) \<le> length body"
          using decodeCString_Inr [of "drop (offset + 1) body" str] len by simp
        have "parseErrorResponseMessage_loop body flds offset =
            parseErrorResponseMessage_loop body (flds(fieldType \<mapsto> str))
              (offset + 1 + (length str + 1))"
          using r1 r2 Inr str False s1 s2
          by (subst parseErrorResponseMessage_loop.simps) simp
        with "1.IH" [OF s1 r1 Inr False s2 r2 str len2] show ?thesis
          by (simp only:)
      qed
    qed
  qed
qed

lemma parseErrorResponseMessage_total:
  "\<exists>m e. parseErrorResponseMessage body = Return (m, e)"
  by (simp add: parseErrorResponseMessage_def parseErrorResponseMessage_loop_total)

lemma parseParameterStatusMessage_total:
  "\<exists>m e. parseParameterStatusMessage body = Return (m, e)"
proof -
  from decodeCString_total obtain r1 where r1: "decodeCString body = Return r1" by blast
  show ?thesis
  proof (cases r1)
    case (Inl err)
    with r1 show ?thesis by (simp add: parseParameterStatusMessage_def)
  next
    case (Inr name)
    with r1 have len: "length name + 1 \<le> length body"
      using decodeCString_Inr by blast
    from decodeCString_total obtain r2 where
      r2: "decodeCString (drop (length name + 1) body) = Return r2" by blast
    from r1 r2 Inr len show ?thesis
      by (cases r2) (simp_all add: parseParameterStatusMessage_def)
  qed
qed

lemma parseBackendKeyDataMessage_total:
  "\<exists>m e. parseBackendKeyDataMessage body = Return (m, e)"
proof -
  from decodeUint32_total obtain r1 where r1: "decodeUint32 body = Return r1" by blast
  show ?thesis
  proof (cases r1)
    case (Inl err)
    with r1 show ?thesis by (simp add: parseBackendKeyDataMessage_def)
  next
    case (Inr pid)
    with r1 have len: "4 \<le> length body"
      using decodeUint32_Inr by blast
    from decodeUint32_total obtain r2 where r2: "decodeUint32 (drop 4 body) = Return r2" by blast
    from r1 r2 Inr len show ?thesis
      by (cases r2) (simp_all add: parseBackendKeyDataMessage_def)
  qed
qed

lemma parseCommandCompleteMessage_total:
  "\<exists>m e. parseCommandCompleteMessage body = Return (m, e)"
proof -
  from decodeCString_total obtain r1 where r1: "decodeCString body = Return r1" by blast
  then show ?thesis
    by (cases r1) (simp_all add: parseCommandCompleteMessage_def)
qed

lemma parseAuthenticationRequestMessage_total:
  "\<exists>m e. parseAuthenticationRequestMessage body = Return (m, e)"
proof -
  from decodeUint32_total obtain r1 where r1: "decodeUint32 body = Return r1" by blast
  then show ?thesis
    by (cases r1) (simp_all add: parseAuthenticationRequestMessage_def)
qed

lemma parseReadyForQueryMessage_total:
  "\<exists>m e. parseReadyForQueryMessage body = Return (m, e)"
proof -
  from decodeUint8_total obtain r1 where r1: "decodeUint8 body = Return r1" by blast
  then show ?thesis
    by (cases r1) (simp_all add: parseReadyForQueryMessage_def)
qed

lemma decodeUint32_cases:
  obtains (err) e where "decodeUint32 p = Return (Inl e)"
  | (ok) v where "decodeUint32 p = Return (Inr v)" "4 \<le> length p"
  using decodeUint32_total [of p] decodeUint32_Inr [of p]
  by (metis sum.exhaust)

lemma decodeUint16_cases:
  obtains (err) e where "decodeUint16 p = Return (Inl e)"
  | (ok) v where "decodeUint16 p = Return (Inr v)" "2 \<le> length p"
  using decodeUint16_total [of p] decodeUint16_Inr [of p]
  by (metis sum.exhaust)

lemma decodeCString_cases:
  obtains (err) e where "decodeCString p = Return (Inl e)"
  | (ok) str where "decodeCString p = Return (Inr str)" "length str + 1 \<le> length p"
  using decodeCString_total [of p] decodeCString_Inr [of p]
  by (metis sum.exhaust)

lemma parseRowDescriptionMessage_loop_step:
  assumes "offset \<le> length body" "i < length flds"
  shows "(\<exists>m e. parseRowDescriptionMessage_loop body flds i offset = Return (m, Some e))
    \<or> (\<exists>flds' offset'. length flds' = length flds \<and> offset' \<le> length body
        \<and> parseRowDescriptionMessage_loop body flds i offset =
            parseRowDescriptionMessage_loop body flds' (i + 1) offset')"
proof (cases "drop offset body" rule: decodeCString_cases)
  case (err e)
  with assms show ?thesis
    by (subst parseRowDescriptionMessage_loop.simps) simp
next
  case (ok name)
  define o1 where "o1 = offset + (length name + 1)"
  from ok assms have l1: "o1 \<le> length body" by (simp add: o1_def)
  show ?thesis
  proof (cases "drop o1 body" rule: decodeUint32_cases)
    case (err e)
    with assms ok l1 show ?thesis
      by (subst parseRowDescriptionMessage_loop.simps) (simp add: o1_def Let_def)
  next
    case ok2: (ok v2)
    with l1 have l2: "o1 + 4 \<le> length body" by simp
    show ?thesis
    proof (cases "drop (o1 + 4) body" rule: decodeUint16_cases)
      case (err e)
      with assms ok ok2 l1 l2 show ?thesis
        by (subst parseRowDescriptionMessage_loop.simps) (simp add: o1_def Let_def)
    next
      case ok3: (ok v3)
      with l2 have l3: "o1 + 4 + 2 \<le> length body" by simp
      show ?thesis
      proof (cases "drop (o1 + 4 + 2) body" rule: decodeUint32_cases)
        case (err e)
        with assms ok ok2 ok3 l1 l2 l3 show ?thesis
          by (subst parseRowDescriptionMessage_loop.simps) (simp add: o1_def Let_def)
      next
        case ok4: (ok v4)
        with l3 have l4: "o1 + 4 + 2 + 4 \<le> length body" by simp
        show ?thesis
        proof (cases "drop (o1 + 4 + 2 + 4) body" rule: decodeUint16_cases)
          case (err e)
          with assms ok ok2 ok3 ok4 l1 l2 l3 l4 show ?thesis
            by (subst parseRowDescriptionMessage_loop.simps) (simp add: o1_def Let_def)
        next
          case ok5: (ok v5)
          with l4 have l5: "o1 + 4 + 2 + 4 + 2 \<le> length body" by simp
          show ?thesis
          proof (cases "drop (o1 + 4 + 2 + 4 + 2) body" rule: decodeUint32_cases)
            case (err e)
            with assms ok ok2 ok3 ok4 ok5 l1 l2 l3 l4 l5 show ?thesis
              by (subst parseRowDescriptionMessage_loop.simps) (simp add: o1_def Let_def)
          next
            case ok6: (ok v6)
            with l5 have l6: "o1 + 4 + 2 + 4 + 2 + 4 \<le> length body" by simp
            show ?thesis
            proof (cases "drop (o1 + 4 + 2 + 4 + 2 + 4) body" rule: decodeUint16_cases)
              case (err e)
              with assms ok ok2 ok3 ok4 ok5 ok6 l1 l2 l3 l4 l5 l6 show ?thesis
                by (subst parseRowDescriptionMessage_loop.simps) (simp add: o1_def Let_def)
            next
              case ok7: (ok v7)
              with l6 have l7: "o1 + 4 + 2 + 4 + 2 + 4 + 2 \<le> length body" by simp
              have "parseRowDescriptionMessage_loop body flds i offset =
                    parseRowDescriptionMessage_loop body
                      (flds[i := (flds ! i)\<lparr>Name := name, TableOID := v2, AttributeNumber := v3,
                         DataTypeOID := v4, DataTypeSize := v5, TypeModifier := v6,
                         FormatCode := v7\<rparr>])
                      (i + 1) (o1 + 4 + 2 + 4 + 2 + 4 + 2)"
                using assms ok ok2 ok3 ok4 ok5 ok6 ok7 l1 l2 l3 l4 l5 l6
                by (subst parseRowDescriptionMessage_loop.simps) (simp add: o1_def Let_def)
              then have "\<exists>flds'. length flds' = length flds
                  \<and> parseRowDescriptionMessage_loop body flds i offset =
                    parseRowDescriptionMessage_loop body flds' (i + 1)
                      (o1 + 4 + 2 + 4 + 2 + 4 + 2)"
                by (metis length_list_update)
              with l7 show ?thesis by blast
            qed
          qed
        qed
      qed
    qed
  qed
qed

lemma parseRowDescriptionMessage_loop_total:
  "offset \<le> length body \<Longrightarrow>
   \<exists>m e. parseRowDescriptionMessage_loop body flds i offset = Return (m, e)"
proof (induction "length flds - i" arbitrary: flds i offset)
  case 0
  then show ?case
    by (subst parseRowDescriptionMessage_loop.simps) simp
next
  case (Suc n)
  then have "i < length flds" by simp
  from parseRowDescriptionMessage_loop_step [OF Suc.prems this]
  show ?case
  proof
    assume "\<exists>m e. parseRowDescriptionMessage_loop body flds i offset = Return (m, Some e)"
    then show ?thesis by blast
  next
    assume "\<exists>flds' offset'. length flds' = length flds \<and> offset' \<le> length body
        \<and> parseRowDescriptionMessage_loop body flds i offset =
            parseRowDescriptionMessage_loop body flds' (i + 1) offset'"
    then obtain flds' offset' where s: "length flds' = length flds" "offset' \<le> length body"
      "parseRowDescriptionMessage_loop body flds i offset =
            parseRowDescriptionMessage_loop body flds' (i + 1) offset'" by blast
    from Suc.hyps(2) s(1) have "n = length flds' - (i + 1)" by simp
    from Suc.hyps(1) [OF this s(2)] s(3) show ?thesis by (simp only:)
  qed
qed

lemma parseRowDescriptionMessage_total:
  "\<exists>m e. parseRowDescriptionMessage body = Return (m, e)"
proof (cases body rule: decodeUint16_cases)
  case (err e)
  then show ?thesis by (simp add: parseRowDescriptionMessage_def)
next
  case (ok numFields)
  then show ?thesis
    using parseRowDescriptionMessage_loop_total [of 2 body]
    by (simp add: parseRowDescriptionMessage_def)
qed

lemma slice_in_range [simp]:
  "lo \<le> hi \<Longrightarrow> hi \<le> length p \<Longrightarrow> slice p lo hi = Return (take (hi - lo) (drop lo p))"
  by (simp add: slice_def)

lemma parseDataRowMessage_loop_done:
  "length vals \<le> i \<Longrightarrow>
   parseDataRowMessage_loop body vals i offset = Return (DataRowMessage vals, None)"
  by (subst parseDataRowMessage_loop.simps) simp

lemma parseDataRowMessage_loop_short:
  "i < length vals \<Longrightarrow> offset \<le> length body \<Longrightarrow> decodeUint32 (drop offset body) = Return (Inl e) \<Longrightarrow>
   parseDataRowMessage_loop body vals i offset = Return (DataRowMessage vals, Some e)"
  by (subst parseDataRowMessage_loop.simps) simp

lemma parseDataRowMessage_loop_null:
  "i < length vals \<Longrightarrow> offset \<le> length body \<Longrightarrow>
   decodeUint32 (drop offset body) = Return (Inr 0xffffffff) \<Longrightarrow>
   parseDataRowMessage_loop body vals i offset =
     parseDataRowMessage_loop body (vals[i := None]) (i + 1) (offset + 4)"
  by (subst parseDataRowMessage_loop.simps) simp

lemma parseDataRowMessage_loop_truncated:
  "i < length vals \<Longrightarrow> offset \<le> length body \<Longrightarrow>
   decodeUint32 (drop offset body) = Return (Inr sz) \<Longrightarrow> sz \<noteq> 0xffffffff \<Longrightarrow>
   length body < offset + 4 + unat sz \<Longrightarrow>
   parseDataRowMessage_loop body vals i offset =
     Return (DataRowMessage vals, Some (ErrorString ''parseDataRowMessage: truncated message''))"
  by (subst parseDataRowMessage_loop.simps) simp

lemma parseDataRowMessage_loop_value:
  "i < length vals \<Longrightarrow> offset \<le> length body \<Longrightarrow>
   decodeUint32 (drop offset body) = Return (Inr sz) \<Longrightarrow> sz \<noteq> 0xffffffff \<Longrightarrow>
   offset + 4 + unat sz \<le> length body \<Longrightarrow>
   parseDataRowMessage_loop body vals i offset =
     parseDataRowMessage_loop body (vals[i := Some (take (unat sz) (drop (offset + 4) body))])
       (i + 1) (offset + 4 + unat sz)"
  by (subst parseDataRowMessage_loop.simps) simp

lemma parseDataRowMessage_loop_result:
  "offset \<le> length body \<Longrightarrow>
   \<exists>vs e. parseDataRowMessage_loop body vals i offset = Return (DataRowMessage vs, e)
     \<and> length vs = length vals \<and> take i vs = take i vals"
proof (induction "length vals - i" arbitrary: vals i offset)
  case 0
  then show ?case by (simp add: parseDataRowMessage_loop_done)
next
  case (Suc n)
  then have i: "i < length vals" by simp
  show ?case
  proof (cases "drop offset body" rule: decodeUint32_cases)
    case (err e)
    with i Suc.prems show ?thesis by (simp add: parseDataRowMessage_loop_short)
  next
    case (ok sz)
    with Suc.prems have l: "offset + 4 \<le> length body" by simp
    show ?thesis
    proof (cases "sz = 0xffffffff")
      case True
      from Suc.hyps(2) have "n = length (vals[i := None]) - (i + 1)" by simp
      from Suc.hyps(1) [OF this l] obtain vs e where
        r: "parseDataRowMessage_loop body (vals[i := None]) (i + 1) (offset + 4)
              = Return (DataRowMessage vs, e)"
          "length vs = length (vals[i := None])"
          "take (i + 1) vs = take (i + 1) (vals[i := None])" by blast
      from r(3) have "take i (take (i + 1) vs) = take i (take (i + 1) (vals[i := None]))"
        by simp
      then have "take i vs = take i vals" by (simp add: min_def)
      with r(1,2) parseDataRowMessage_loop_null [OF i Suc.prems] ok(1) True show ?thesis
        by simp
    next
      case False
      show ?thesis
      proof (cases "length body < offset + 4 + unat sz")
        case True
        with i Suc.prems ok(1) False show ?thesis
          by (simp add: parseDataRowMessage_loop_truncated)
      next
        case nt: False
        define v where "v = Some (take (unat sz) (drop (offset + 4) body))"
        from nt have l2: "offset + 4 + unat sz \<le> length body" by simp
        from Suc.hyps(2) have "n = length (vals[i := v]) - (i + 1)" by simp
        from Suc.hyps(1) [OF this l2] obtain vs e where
          r: "parseDataRowMessage_loop body (vals[i := v]) (i + 1) (offset + 4 + unat sz)
                = Return (DataRowMessage vs, e)"
            "length vs = length (vals[i := v])"
            "take (i + 1) vs = take (i + 1) (vals[i := v])" by blast
        from r(3) have "take i (take (i + 1) vs) = take i (take (i + 1) (vals[i := v]))"
          by simp
        then have "take i vs = take i vals" by (simp add: min_def)
        with r(1,2) parseDataRowMessage_loop_value [OF i Suc.prems ok(1) False l2] show ?thesis
          by (simp add: v_def)
      qed
    qed
  qed
qed

lemma parseDataRowMessage_total:
  "\<exists>m e. parseDataRowMessage body = Return (m, e)"
proof (cases body rule: decodeUint16_cases)
  case (err e)
  then show ?thesis by (simp add: parseDataRowMessage_def)
next
  case (ok numValues)
  then show ?thesis
    using parseDataRowMessage_loop_result [of 2 body]
    by (simp add: parseDataRowMessage_def) blast
qed

lemma unat_of_nat_length:
  "n < 2 ^ 32 - 1 \<Longrightarrow> unat (of_nat n :: uint32) = n"
proof -
  assume "n < 2 ^ 32 - 1"
  then have "n < 2 ^ LENGTH(32)" by simp
  then show ?thesis by (rule of_nat_inverse [OF refl])
qed

lemma of_nat_not_sentinel:
  "n < 2 ^ 32 - 1 \<Longrightarrow> (of_nat n :: uint32) \<noteq> 0xffffffff"
proof
  assume a: "n < 2 ^ 32 - 1" and e: "(of_nat n :: uint32) = 0xffffffff"
  from a have "unat (of_nat n :: uint32) = n" by (rule unat_of_nat_length)
  with e have "n = unat (0xffffffff :: uint32)" by simp
  with a show False by simp
qed

lemma length_be32 [simp]: "length (be32 v) = 4"
  by (simp add: be32_def)

lemma length_be16 [simp]: "length (be16 v) = 2"
  by (simp add: be16_def)

text \<open>The loop reads back a run of encoded values.\<close>

lemma parseDataRowMessage_loop_prefix:
  "list_all encodable pre \<Longrightarrow> offset \<le> length body \<Longrightarrow>
   drop offset body = concat (map encodeValue pre) @ tail \<Longrightarrow>
   parseDataRowMessage_loop body (done @ replicate (length pre + k) None) (length done) offset =
     parseDataRowMessage_loop body ((done @ pre) @ replicate k None) (length done + length pre)
       (offset + length (concat (map encodeValue pre)))"
proof (induction pre arbitrary: "done" offset)
  case Nil
  then show ?case by simp
next
  case (Cons v pre)
  let ?vals = "done @ replicate (length (v # pre) + k) None"
  have i: "length done < length ?vals" by simp
  have upd: "?vals[length done := v] = (done @ [v]) @ replicate (length pre + k) None"
    by (simp add: list_update_append)
  have enc: "drop offset body = encodeValue v @ concat (map encodeValue pre) @ tail"
    using Cons.prems(3) by simp
  have wf: "list_all encodable pre" and wfv: "encodable v"
    using Cons.prems(1) by simp_all
  have lenv: "offset + length (encodeValue v) \<le> length body"
  proof -
    have "length (drop offset body) \<ge> length (encodeValue v)"
      by (simp only: enc length_append)
    with Cons.prems(2) show ?thesis by simp
  qed
  have rest: "drop (offset + length (encodeValue v)) body = concat (map encodeValue pre) @ tail"
  proof -
    have "drop (length (encodeValue v)) (drop offset body) = concat (map encodeValue pre) @ tail"
      by (simp only: enc) simp
    then show ?thesis by (simp add: add.commute)
  qed
  have step: "parseDataRowMessage_loop body ?vals (length done) offset =
      parseDataRowMessage_loop body ((done @ [v]) @ replicate (length pre + k) None)
        (length done + 1) (offset + length (encodeValue v))"
  proof (cases v)
    case None
    then have d: "decodeUint32 (drop offset body) = Return (Inr 0xffffffff)"
      by (simp only: enc) (simp add: encodeValue_def decodeUint32_be32)
    from parseDataRowMessage_loop_null [OF i Cons.prems(2) d] upd None show ?thesis
      by (simp add: encodeValue_def)
  next
    case (Some bs)
    with wfv have fits: "length bs < 2 ^ 32 - 1" by (simp add: encodable_def)
    let ?sz = "of_nat (length bs) :: uint32"
    have d: "decodeUint32 (drop offset body) = Return (Inr ?sz)"
      by (simp only: enc) (simp add: Some encodeValue_def decodeUint32_be32)
    have ns: "?sz \<noteq> 0xffffffff" using fits by (rule of_nat_not_sentinel)
    have us: "unat ?sz = length bs" using fits by (rule unat_of_nat_length)
    have fit: "offset + 4 + unat ?sz \<le> length body"
      using lenv by (simp add: Some encodeValue_def us)
    have "drop 4 (drop offset body) = bs @ concat (map encodeValue pre) @ tail"
      by (simp only: enc) (simp add: Some encodeValue_def)
    then have "take (unat ?sz) (drop (offset + 4) body) = bs"
      by (simp add: us add.commute)
    with parseDataRowMessage_loop_value [OF i Cons.prems(2) d ns fit] upd Some us show ?thesis
      by (simp add: encodeValue_def add.assoc)
  qed
  from Cons.IH [OF wf lenv rest, of "done @ [v]"] step show ?case
    by (simp add: add.assoc)
qed

lemma parseDataRowMessage_at_position:
  assumes "list_all encodable pre" "length pre \<le> unat n"
  shows "parseDataRowMessage (be16 n @ concat (map encodeValue pre) @ tail) =
     parseDataRowMessage_loop (be16 n @ concat (map encodeValue pre) @ tail)
       (pre @ replicate (unat n - length pre) None) (length pre)
       (2 + length (concat (map encodeValue pre)))"
proof -
  let ?body = "be16 n @ concat (map encodeValue pre) @ tail"
  have d: "drop 2 ?body = concat (map encodeValue pre) @ tail" by simp
  have l: "2 \<le> length ?body" by simp
  from assms(2) have n: "unat n = length pre + (unat n - length pre)" by simp
  have "parseDataRowMessage ?body = parseDataRowMessage_loop ?body (replicate (unat n) None) 0 2"
    by (simp add: parseDataRowMessage_def decodeUint16_be16)
  also have "replicate (unat n) None = [] @ replicate (length pre + (unat n - length pre)) None"
    using n by simp
  finally show ?thesis
    using parseDataRowMessage_loop_prefix [OF assms(1) l d, of "[]" "unat n - length pre"]
    by simp
qed

lemma parseDataRowMessage_null_at:
  assumes "list_all encodable pre" "length pre < unat n"
  shows "\<exists>vs e. parseDataRowMessage (be16 n @ concat (map encodeValue pre) @ be32 0xffffffff @ rest)
        = Return (DataRowMessage vs, e)
      \<and> length vs = unat n \<and> take (length pre) vs = pre \<and> vs ! length pre = None"
proof -
  let ?body = "be16 n @ concat (map encodeValue pre) @ be32 0xffffffff @ rest"
  let ?vals = "pre @ replicate (unat n - length pre) None"
  let ?off = "2 + length (concat (map encodeValue pre))"
  have i: "length pre < length ?vals" using assms(2) by simp
  have o: "?off \<le> length ?body" by simp
  have d: "decodeUint32 (drop ?off ?body) = Return (Inr 0xffffffff)"
    by (simp add: decodeUint32_be32)
  have o4: "?off + 4 \<le> length ?body" by simp
  from parseDataRowMessage_loop_result [OF o4, of "?vals[length pre := None]" "length pre + 1"]
  obtain vs e where r:
    "parseDataRowMessage_loop ?body (?vals[length pre := None]) (length pre + 1) (?off + 4)
       = Return (DataRowMessage vs, e)"
    "length vs = length (?vals[length pre := None])"
    "take (length pre + 1) vs = take (length pre + 1) (?vals[length pre := None])"
    by blast
  have p: "parseDataRowMessage ?body = Return (DataRowMessage vs, e)"
    using parseDataRowMessage_at_position [OF assms(1), of n "be32 0xffffffff @ rest"] assms(2)
      parseDataRowMessage_loop_null [OF i o d] r(1) by simp
  have len: "length vs = unat n" using r(2) assms(2) by simp
  have "take (length pre + 1) vs ! length pre = take (length pre + 1) (?vals[length pre := None]) ! length pre"
    using r(3) by simp
  then have at: "vs ! length pre = None" using i by simp
  have "take (length pre) (take (length pre + 1) vs)
      = take (length pre) (take (length pre + 1) (?vals[length pre := None]))"
    using r(3) by simp
  then have "take (length pre) vs = pre" by (simp add: min_def)
  with p len at show ?thesis by blast
qed

lemma parseDataRowMessage_empty_at:
  assumes "list_all encodable pre" "length pre < unat n"
  shows "\<exists>vs e. parseDataRowMessage (be16 n @ concat (map encodeValue pre) @ be32 0 @ rest)
        = Return (DataRowMessage vs, e)
      \<and> length vs = unat n \<and> take (length pre) vs = pre \<and> vs ! length pre = Some []"
proof -
  let ?body = "be16 n @ concat (map encodeValue pre) @ be32 0 @ rest"
  let ?vals = "pre @ replicate (unat n - length pre) None"
  let ?off = "2 + length (concat (map encodeValue pre))"
  have i: "length pre < length ?vals" using assms(2) by simp
  have o: "?off \<le> length ?body" by simp
  have d: "decodeUint32 (drop ?off ?body) = Return (Inr 0)"
    by (simp add: decodeUint32_be32)
  have ns: "(0 :: uint32) \<noteq> 0xffffffff" by simp
  have o4: "?off + 4 + unat (0 :: uint32) \<le> length ?body" by simp
  let ?v = "Some (take (unat (0 :: uint32)) (drop (?off + 4) ?body))"
  from parseDataRowMessage_loop_result [OF o4, of "?vals[length pre := ?v]" "length pre + 1"]
  obtain vs e where r:
    "parseDataRowMessage_loop ?body (?vals[length pre := ?v]) (length pre + 1)
       (?off + 4 + unat (0 :: uint32)) = Return (DataRowMessage vs, e)"
    "length vs = length (?vals[length pre := ?v])"
    "take (length pre + 1) vs = take (length pre + 1) (?vals[length pre := ?v])"
    by blast
  have p: "parseDataRowMessage ?body = Return (DataRowMessage vs, e)"
    using parseDataRowMessage_at_position [OF assms(1), of n "be32 0 @ rest"] assms(2)
      parseDataRowMessage_loop_value [OF i o d ns o4] r(1) by simp
  have len: "length vs = unat n" using r(2) assms(2) by simp
  have "take (length pre + 1) vs ! length pre = take (length pre + 1) (?vals[length pre := ?v]) ! length pre"
    using r(3) by simp
  then have at: "vs ! length pre = Some []" using i by simp
  have "take (length pre) (take (length pre + 1) vs)
      = take (length pre) (take (length pre + 1) (?vals[length pre := ?v]))"
    using r(3) by simp
  then have "take (length pre) vs = pre" by (simp add: min_def)
  with p len at show ?thesis by blast
qed

lemma parseDataRowMessage_truncated_at:
  assumes "list_all encodable pre" "length pre < unat n"
    and "sz \<noteq> 0xffffffff" "length rest < unat sz"
  shows "parseDataRowMessage (be16 n @ concat (map encodeValue pre) @ be32 sz @ rest) =
      Return (DataRowMessage (pre @ replicate (unat n - length pre) None),
        Some (ErrorString ''parseDataRowMessage: truncated message''))"
proof -
  let ?body = "be16 n @ concat (map encodeValue pre) @ be32 sz @ rest"
  let ?vals = "pre @ replicate (unat n - length pre) None"
  let ?off = "2 + length (concat (map encodeValue pre))"
  have i: "length pre < length ?vals" using assms(2) by simp
  have o: "?off \<le> length ?body" by simp
  have d: "decodeUint32 (drop ?off ?body) = Return (Inr sz)"
    by (simp add: decodeUint32_be32)
  have t: "length ?body < ?off + 4 + unat sz" using assms(4) by simp
  show ?thesis
    using parseDataRowMessage_at_position [OF assms(1), of n "be32 sz @ rest"] assms(2)
      parseDataRowMessage_loop_truncated [OF i o d assms(3) t] by simp
qed

text \<open>
  C10. Every factory method of a message with a variable layout, and the two decoders
  they read strings and integers with, return for every body: no index or slice
  expression in them is ever out of range, which is where the model would panic.
\<close>

theorem parse_functions_total:
  "(\<exists>m e. parseRowDescriptionMessage body = Return (m, e))
   \<and> (\<exists>m e. parseDataRowMessage body = Return (m, e))
   \<and> (\<exists>m e. parseErrorResponseMessage body = Return (m, e))
   \<and> (\<exists>m e. parseParameterStatusMessage body = Return (m, e))
   \<and> (\<exists>m e. parseBackendKeyDataMessage body = Return (m, e))
   \<and> (\<exists>m e. parseCommandCompleteMessage body = Return (m, e))
   \<and> (\<exists>r. decodeCString body = Return r)
   \<and> (\<exists>r. decodeUint32 body = Return r)"
  using parseRowDescriptionMessage_total parseDataRowMessage_total parseErrorResponseMessage_total
    parseParameterStatusMessage_total parseBackendKeyDataMessage_total
    parseCommandCompleteMessage_total decodeCString_total decodeUint32_total
  by blast

text \<open>
  C8 (as amended). Decoding an empty-query notice succeeds for every body and yields
  \<open>EmptyQueryMessage\<close>, which implements \<open>error\<close> as an error response does; its
  message is the fixed string "The provided SQL string was empty" and its code is the
  empty string.
\<close>

theorem empty_query_notice_decodes:
  "parseEmptyQueryMessage body = Return (EmptyQueryMessage, None)
   \<and> messageFactoryMethods (of_char CHR ''I'') = Some parseEmptyQueryMessage
   \<and> implements_error EmptyQueryMessage
   \<and> Error EmptyQueryMessage = gostr ''The provided SQL string was empty''
   \<and> Code EmptyQueryMessage = []"
  by (simp add: parseEmptyQueryMessage_def messageFactoryMethods_def implements_error_def
      Error_def Code_def EmptyQueryMessage_Error_def EmptyQueryMessage_Code_def gostr_def)

text \<open>
  C8 (as stated) fails: the message of the decoded empty-query notice is not the string
  "the query string was empty".
\<close>

theorem empty_query_notice_message_counterexample:
  "parseEmptyQueryMessage [] = Return (EmptyQueryMessage, None)
   \<and> Error EmptyQueryMessage \<noteq> gostr ''the query string was empty''"
  by (simp add: parseEmptyQueryMessage_def Error_def EmptyQueryMessage_Error_def gostr_def)

section \<open>Properties of the frame reader\<close>

lemma ReadFull_available:
  "\<not> closed r \<Longrightarrow> 0 < n \<Longrightarrow> inbound r = bs @ rest \<Longrightarrow> length bs = n \<Longrightarrow>
   ReadFull r n = ((bs, None), r\<lparr>inbound := rest\<rparr>)"
  by (simp add: ReadFull_def)

lemma unpackUint32_be32_only: "unpackUint32 (be32 v) = Return v"
  using unpackUint32_be32 [of v "[]"] by simp

lemma receiveMessage_header:
  assumes "\<not> closed r" "inbound r = tag # be32 sz @ rest"
  shows "receiveMessage r =
     (if sz \<ge> 4 then
        (case (if sz > 4 then ReadFull (r\<lparr>inbound := rest\<rparr>) (unat (sz - 4))
               else ((replicate (unat (sz - 4)) 0, None), r\<lparr>inbound := rest\<rparr>)) of
           ((messageContent, Some err), r2) \<Rightarrow> (Return (None, Some err), r2)
         | ((messageContent, None), r2) \<Rightarrow>
             (case messageFactoryMethods tag of
                None \<Rightarrow> (Panic (PanicString ''Unknown message type: %c''), r2)
              | Some factoryMethod \<Rightarrow>
                  (case factoryMethod messageContent of
                     Panic e \<Rightarrow> (Panic e, r2)
                   | Return (message, err) \<Rightarrow> (Return (Some message, err), r2))))
      else
        (Return (None, Some (ErrorString ''A message should be at least 4 bytes long'')),
         r\<lparr>inbound := rest\<rparr>))"
proof -
  have rf: "ReadFull r 5 = ((tag # be32 sz, None), r\<lparr>inbound := rest\<rparr>)"
    using assms by (intro ReadFull_available) simp_all
  have ix: "index (tag # be32 sz) 0 = Return tag" by (simp add: index_def)
  have sl: "slice (tag # be32 sz) 1 5 = Return (be32 sz)" by (simp add: slice_def)
  show ?thesis
    by (simp only: receiveMessage_def rf ix sl unpackUint32_be32_only prod.case option.case
        result.case)
qed

lemma receiveMessage_short_length:
  assumes "\<not> closed r" "inbound r = tag # be32 sz @ rest" "sz < 4"
  shows "receiveMessage r =
     (Return (None, Some (ErrorString ''A message should be at least 4 bytes long'')),
      r\<lparr>inbound := rest\<rparr>)"
  using assms(3) by (simp add: receiveMessage_header [OF assms(1,2)] not_le [symmetric])

lemma unat_minus_4: "4 \<le> sz \<Longrightarrow> unat (sz - 4 :: uint32) = unat sz - 4"
  by (simp add: unat_sub)

lemma receiveMessage_body:
  assumes "\<not> closed r" "inbound r = tag # be32 sz @ rest" "4 \<le> sz"
    and "unat sz - 4 \<le> length rest"
    and "messageFactoryMethods tag = Some factoryMethod"
  shows "receiveMessage r =
     (case factoryMethod (take (unat sz - 4) rest) of
        Panic e \<Rightarrow> (Panic e, r\<lparr>inbound := drop (unat sz - 4) rest\<rparr>)
      | Return (message, err) \<Rightarrow>
          (Return (Some message, err), r\<lparr>inbound := drop (unat sz - 4) rest\<rparr>))"
proof (cases "sz = 4")
  case True
  then show ?thesis
    using assms(5)
    by (cases "factoryMethod []") (simp_all add: receiveMessage_header [OF assms(1,2)])
next
  case False
  with assms(3) have gt: "4 < sz" by simp
  then have pos: "0 < unat (sz - 4)"
    by (simp add: unat_minus_4 [OF assms(3)] word_less_nat_alt)
  have "ReadFull (r\<lparr>inbound := rest\<rparr>) (unat (sz - 4)) =
      ((take (unat sz - 4) rest, None), r\<lparr>inbound := drop (unat sz - 4) rest\<rparr>)"
    using assms(1,4) pos by (simp add: ReadFull_def unat_minus_4 [OF assms(3)])
  with gt assms(3,5) show ?thesis
    by (simp add: receiveMessage_header [OF assms(1,2)])
qed

lemma receiveMessage_unknown_tag:
  assumes "\<not> closed r" "inbound r = tag # be32 sz @ rest" "4 \<le> sz"
    and "unat sz - 4 \<le> length rest"
    and "messageFactoryMethods tag = None"
  shows "receiveMessage r =
     (Panic (PanicString ''Unknown message type: %c''), r\<lparr>inbound := drop (unat sz - 4) rest\<rparr>)"
proof (cases "sz = 4")
  case True
  then show ?thesis
    using assms(5) by (simp add: receiveMessage_header [OF assms(1,2)])
next
  case False
  with assms(3) have gt: "4 < sz" by simp
  then have pos: "0 < unat (sz - 4)"
    by (simp add: unat_minus_4 [OF assms(3)] word_less_nat_alt)
  have "ReadFull (r\<lparr>inbound := rest\<rparr>) (unat (sz - 4)) =
      ((take (unat sz - 4) rest, None), r\<lparr>inbound := drop (unat sz - 4) rest\<rparr>)"
    using assms(1,4) pos by (simp add: ReadFull_def unat_minus_4 [OF assms(3)])
  with gt assms(3,5) show ?thesis
    by (simp add: receiveMessage_header [OF assms(1,2)])
qed

text \<open>
  C7. On an open socket whose next bytes are a tag and a declared length \<open>sz\<close>: when
  \<open>sz\<close> is below 4 the frame reader returns the error "A message should be at least 4
  bytes long", with which \<open>Connection.receiveMessage\<close> panics; when \<open>sz\<close> is at least
  4 and the body is there, the factory method of the tag is given the next \<open>sz - 4\<close>
  bytes as the body; and for \<open>sz\<close> exactly 4 it is given the empty body.
\<close>

theorem frame_body_length:
  assumes "\<not> closed r" and "inbound r = tag # be32 sz @ rest"
  shows "(sz < 4 \<longrightarrow>
        receiveMessage r =
          (Return (None, Some (ErrorString ''A message should be at least 4 bytes long'')),
           r\<lparr>inbound := rest\<rparr>))
    \<and> (sz < 4 \<and> socket c = Some r \<longrightarrow>
        Connection_receiveMessage c =
          (Panic (PanicError (ErrorString ''A message should be at least 4 bytes long'')),
           c\<lparr>socket := Some (r\<lparr>inbound := rest\<rparr>)\<rparr>))
    \<and> (4 \<le> sz \<and> unat sz - 4 \<le> length rest \<and> messageFactoryMethods tag = Some factoryMethod \<longrightarrow>
        receiveMessage r =
          (case factoryMethod (take (unat sz - 4) rest) of
             Panic e \<Rightarrow> (Panic e, r\<lparr>inbound := drop (unat sz - 4) rest\<rparr>)
           | Return (message, err) \<Rightarrow>
               (Return (Some message, err), r\<lparr>inbound := drop (unat sz - 4) rest\<rparr>)))
    \<and> (sz = 4 \<and> messageFactoryMethods tag = Some factoryMethod \<longrightarrow>
        receiveMessage r =
          (case factoryMethod [] of
             Panic e \<Rightarrow> (Panic e, r\<lparr>inbound := rest\<rparr>)
           | Return (message, err) \<Rightarrow> (Return (Some message, err), r\<lparr>inbound := rest\<rparr>)))"
proof (intro conjI impI)
  assume "sz < 4"
  then show "receiveMessage r =
      (Return (None, Some (ErrorString ''A message should be at least 4 bytes long'')),
       r\<lparr>inbound := rest\<rparr>)"
    by (rule receiveMessage_short_length [OF assms])
next
  assume "sz < 4 \<and> socket c = Some r"
  then show "Connection_receiveMessage c =
      (Panic (PanicError (ErrorString ''A message should be at least 4 bytes long'')),
       c\<lparr>socket := Some (r\<lparr>inbound := rest\<rparr>)\<rparr>)"
    using receiveMessage_short_length [OF assms]
    by (simp add: Connection_receiveMessage_def ReadMessage_def)
next
  assume "4 \<le> sz \<and> unat sz - 4 \<le> length rest \<and> messageFactoryMethods tag = Some factoryMethod"
  then show "receiveMessage r =
      (case factoryMethod (take (unat sz - 4) rest) of
         Panic e \<Rightarrow> (Panic e, r\<lparr>inbound := drop (unat sz - 4) rest\<rparr>)
       | Return (message, err) \<Rightarrow>
           (Return (Some message, err), r\<lparr>inbound := drop (unat sz - 4) rest\<rparr>))"
    using receiveMessage_body [OF assms] by blast
next
  assume a: "sz = 4 \<and> messageFactoryMethods tag = Some factoryMethod"
  then have "4 \<le> sz" "unat sz - 4 \<le> length rest" "unat sz - 4 = 0" by simp_all
  from receiveMessage_body [OF assms this(1,2)] a this(3)
  show "receiveMessage r =
      (case factoryMethod [] of
         Panic e \<Rightarrow> (Panic e, r\<lparr>inbound := rest\<rparr>)
       | Return (message, err) \<Rightarrow> (Return (Some message, err), r\<lparr>inbound := rest\<rparr>))"
    by (cases "factoryMethod []") simp_all
qed

lemma factory_I: "messageFactoryMethods (of_char CHR ''I'') = Some parseEmptyQueryMessage"
  by (simp add: messageFactoryMethods_def)

theorem frame_body_length_witness:
  "\<not> closed (server (of_char CHR ''I'' # be32 3 @ [0x5A]))
   \<and> inbound (server (of_char CHR ''I'' # be32 3 @ [0x5A])) = of_char CHR ''I'' # be32 3 @ [0x5A]
   \<and> receiveMessage (server (of_char CHR ''I'' # be32 3 @ [0x5A])) =
       (Return (None, Some (ErrorString ''A message should be at least 4 bytes long'')),
        server [0x5A])
   \<and> \<not> closed (server (of_char CHR ''I'' # be32 4 @ [0x5A]))
   \<and> inbound (server (of_char CHR ''I'' # be32 4 @ [0x5A])) = of_char CHR ''I'' # be32 4 @ [0x5A]
   \<and> receiveMessage (server (of_char CHR ''I'' # be32 4 @ [0x5A])) =
       (Return (Some EmptyQueryMessage, None), server [0x5A])"
proof -
  let ?r3 = "server (of_char CHR ''I'' # be32 3 @ [0x5A])"
  let ?r4 = "server (of_char CHR ''I'' # be32 4 @ [0x5A])"
  have o3: "\<not> closed ?r3" and i3: "inbound ?r3 = of_char CHR ''I'' # be32 3 @ [0x5A]"
    by (simp_all add: server_def)
  have o4: "\<not> closed ?r4" and i4: "inbound ?r4 = of_char CHR ''I'' # be32 4 @ [0x5A]"
    by (simp_all add: server_def)
  have "(3 :: uint32) < 4" by simp
  with frame_body_length [OF o3 i3] have c3: "receiveMessage ?r3 =
       (Return (None, Some (ErrorString ''A message should be at least 4 bytes long'')),
        ?r3\<lparr>inbound := [0x5A]\<rparr>)"
    by blast
  from frame_body_length [OF o4 i4, of zeroConnection parseEmptyQueryMessage] factory_I
  have c4: "receiveMessage ?r4 =
      (case parseEmptyQueryMessage [] of
         Panic e \<Rightarrow> (Panic e, ?r4\<lparr>inbound := [0x5A]\<rparr>)
       | Return (message, err) \<Rightarrow> (Return (Some message, err), ?r4\<lparr>inbound := [0x5A]\<rparr>))"
    by blast
  from o3 i3 o4 i4 c3 c4 show ?thesis
    by (simp add: server_def parseEmptyQueryMessage_def)
qed

section \<open>Properties of the connection\<close>

declare initConnection_loop.simps [simp del] Query_loop.simps [simp del]

lemma recv_delivers:
  assumes "socket c = Some r" "delivers r (m # ms) r'"
  obtains r1 where "Connection_receiveMessage c = (Return (Some m), c\<lparr>socket := Some r1\<rparr>)"
    and "delivers r1 ms r'"
  using assms
  by (auto simp: Connection_receiveMessage_def
      split: prod.splits result.splits option.splits)

lemma Query_loop_ready:
  "Connection_receiveMessage c = (Return (Some (ReadyForQueryMessage st)), c1) \<Longrightarrow>
   Query_loop c rs qe = (Return (), rs, qe, c1\<lparr>transactionStatus := st\<rparr>)"
  by (subst Query_loop.simps) (simp add: isReadyForQuery_def)

lemma Query_loop_error:
  "Connection_receiveMessage c = (Return (Some m), c1) \<Longrightarrow> implements_error m \<Longrightarrow>
   Query_loop c rs qe = Query_loop c1 rs (Some (MessageError m))"
  by (subst Query_loop.simps)
    (auto simp: isReadyForQuery_def implements_error_def split: IncomingMessage.splits)

lemma Query_loop_row_description:
  "Connection_receiveMessage c = (Return (Some (RowDescriptionMessage flds)), c1) \<Longrightarrow>
   Query_loop c rs qe = Query_loop c1 (Some \<lparr>Fields = flds, Rows = [], Result = []\<rparr>) qe"
  by (subst Query_loop.simps) (simp add: isReadyForQuery_def)

lemma Query_loop_data_row:
  "Connection_receiveMessage c = (Return (Some (DataRowMessage vals)), c1) \<Longrightarrow>
   Query_loop c rs qe =
     (case rs of
        None \<Rightarrow> (Panic nilDereference, None, qe, c1)
      | Some r \<Rightarrow> Query_loop c1 (Some (r\<lparr>Rows := Rows r @ [\<lparr>Values = vals\<rparr>]\<rparr>)) qe)"
  by (subst Query_loop.simps) (simp add: isReadyForQuery_def split: option.splits)

lemma Query_loop_command_complete:
  "Connection_receiveMessage c = (Return (Some (CommandCompleteMessage res)), c1) \<Longrightarrow>
   Query_loop c rs qe =
     (case rs of
        None \<Rightarrow> (Panic nilDereference, None, qe, c1)
      | Some r \<Rightarrow> Query_loop c1 (Some (r\<lparr>Result := res\<rparr>)) qe)"
  by (subst Query_loop.simps) (simp add: isReadyForQuery_def split: option.splits)

lemma Query_loop_default:
  "Connection_receiveMessage c = (Return msg, c1) \<Longrightarrow>
   (case msg of
      None \<Rightarrow> True
    | Some (AuthenticationRequestMessage code salt) \<Rightarrow> True
    | Some (ParameterStatusMessage name val) \<Rightarrow> True
    | Some (BackendKeyDataMessage pid key) \<Rightarrow> True
    | _ \<Rightarrow> False) \<Longrightarrow>
   Query_loop c rs qe =
     (case handleStatelessMessage c1 msg of
        (Panic e, c3) \<Rightarrow> (Panic e, rs, qe, c3)
      | (Return u, c3) \<Rightarrow> Query_loop c3 rs qe)"
  by (subst Query_loop.simps)
    (auto simp: isReadyForQuery_def split: IncomingMessage.splits option.splits)

lemma Query_loop_panic:
  "Connection_receiveMessage c = (Panic e, c1) \<Longrightarrow>
   Query_loop c rs qe = (Panic e, rs, qe, c1)"
  by (subst Query_loop.simps) simp

text \<open>Only ready-for-query sets the transaction status, and it ends the loop.\<close>

lemma Connection_receiveMessage_status:
  "Connection_receiveMessage c = (out, c1) \<Longrightarrow> transactionStatus c1 = transactionStatus c"
  by (auto simp: Connection_receiveMessage_def split: option.splits prod.splits result.splits)

lemma handleStatelessMessage_status:
  "handleStatelessMessage c msg = (out, c1) \<Longrightarrow> transactionStatus c1 = transactionStatus c"
  by (auto simp: handleStatelessMessage_def split: option.splits IncomingMessage.splits)

lemma Connection_sendMessage_status:
  "Connection_sendMessage c msg = (out, c1) \<Longrightarrow> transactionStatus c1 = transactionStatus c"
  by (auto simp: Connection_sendMessage_def split: option.splits prod.splits)

lemma isReadyForQuery_False:
  "isReadyForQuery c msg = (False, c1) \<Longrightarrow> c1 = c"
  by (auto simp: isReadyForQuery_def split: option.splits IncomingMessage.splits)

lemma Query_loop_cases [case_names panic ready error row_description data_row_nil data_row
    command_complete_nil command_complete default_panic default]:
  obtains
    (panic) e c1 where "Connection_receiveMessage c = (Panic e, c1)"
      and "Query_loop c rs qe = (Panic e, rs, qe, c1)"
  | (ready) st c1 where "Connection_receiveMessage c = (Return (Some (ReadyForQueryMessage st)), c1)"
      and "Query_loop c rs qe = (Return (), rs, qe, c1\<lparr>transactionStatus := st\<rparr>)"
  | (error) m c1 where "Connection_receiveMessage c = (Return (Some m), c1)"
      and "implements_error m"
      and "Query_loop c rs qe = Query_loop c1 rs (Some (MessageError m))"
  | (row_description) flds c1 where
      "Connection_receiveMessage c = (Return (Some (RowDescriptionMessage flds)), c1)"
      and "Query_loop c rs qe = Query_loop c1 (Some \<lparr>Fields = flds, Rows = [], Result = []\<rparr>) qe"
  | (data_row_nil) vals c1 where
      "Connection_receiveMessage c = (Return (Some (DataRowMessage vals)), c1)"
      and "rs = None" and "Query_loop c rs qe = (Panic nilDereference, None, qe, c1)"
  | (data_row) vals c1 r where
      "Connection_receiveMessage c = (Return (Some (DataRowMessage vals)), c1)"
      and "rs = Some r"
      and "Query_loop c rs qe = Query_loop c1 (Some (r\<lparr>Rows := Rows r @ [\<lparr>Values = vals\<rparr>]\<rparr>)) qe"
  | (command_complete_nil) res c1 where
      "Connection_receiveMessage c = (Return (Some (CommandCompleteMessage res)), c1)"
      and "rs = None" and "Query_loop c rs qe = (Panic nilDereference, None, qe, c1)"
  | (command_complete) res c1 r where
      "Connection_receiveMessage c = (Return (Some (CommandCompleteMessage res)), c1)"
      and "rs = Some r"
      and "Query_loop c rs qe = Query_loop c1 (Some (r\<lparr>Result := res\<rparr>)) qe"
  | (default_panic) msg c1 e c3 where "Connection_receiveMessage c = (Return msg, c1)"
      and "handleStatelessMessage c1 msg = (Panic e, c3)"
      and "Query_loop c rs qe = (Panic e, rs, qe, c3)"
  | (default) m c1 c3 where "Connection_receiveMessage c = (Return (Some m), c1)"
      and "stateless m"
      and "handleStatelessMessage c1 (Some m) = (Return (), c3)"
      and "Query_loop c rs qe = Query_loop c3 rs qe"
proof -
  obtain out c1 where rc: "Connection_receiveMessage c = (out, c1)"
    by (cases "Connection_receiveMessage c")
  show ?thesis
  proof (cases out)
    case (Panic e)
    with rc panic Query_loop_panic show ?thesis by blast
  next
    case (Return msg)
    note rc = rc [unfolded Return]
    obtain h c3 where hs: "handleStatelessMessage c1 msg = (h, c3)"
      by (cases "handleStatelessMessage c1 msg")
    have dflt: thesis
      if "case msg of None \<Rightarrow> True | Some (AuthenticationRequestMessage code salt) \<Rightarrow> True
          | Some (ParameterStatusMessage name val) \<Rightarrow> True
          | Some (BackendKeyDataMessage pid key) \<Rightarrow> True | _ \<Rightarrow> False"
    proof (cases h)
      case (Panic e)
      with Query_loop_default [OF rc that, of rs qe] hs default_panic [OF rc] show ?thesis
        by simp
    next
      case (Return u)
      with hs have "msg \<noteq> None" "stateless (the msg)"
        by (auto simp: handleStatelessMessage_def stateless_def
            split: option.splits IncomingMessage.splits)
      with Query_loop_default [OF rc that, of rs qe] hs Return default [of "the msg" c1 c3] rc
      show ?thesis by auto
    qed
    show ?thesis
    proof (cases msg)
      case None
      with dflt show ?thesis by simp
    next
      case (Some m)
      note rc = rc [unfolded Some]
      show ?thesis
      proof (cases m)
        case (AuthenticationRequestMessage code salt)
        with dflt Some show ?thesis by simp
      next
        case (ReadyForQueryMessage st)
        with rc ready Query_loop_ready show ?thesis by blast
      next
        case (ErrorResponseMessage flds)
        then have "implements_error m" by (simp add: implements_error_def)
        with rc error Query_loop_error show ?thesis by blast
      next
        case EmptyQueryMessage
        then have "implements_error m" by (simp add: implements_error_def)
        with rc error Query_loop_error show ?thesis by blast
      next
        case (ParameterStatusMessage name val)
        with dflt Some show ?thesis by simp
      next
        case (BackendKeyDataMessage pid key)
        with dflt Some show ?thesis by simp
      next
        case (CommandCompleteMessage res)
        note rc = rc [unfolded CommandCompleteMessage]
        show ?thesis
        proof (cases rs)
          case None
          with Query_loop_command_complete [OF rc, of rs qe] command_complete_nil [OF rc]
          show ?thesis by simp
        next
          case (Some r)
          with Query_loop_command_complete [OF rc, of rs qe] command_complete [OF rc]
          show ?thesis by simp
        qed
      next
        case (RowDescriptionMessage flds)
        with rc row_description Query_loop_row_description show ?thesis by blast
      next
        case (DataRowMessage vals)
        note rc = rc [unfolded DataRowMessage]
        show ?thesis
        proof (cases rs)
          case None
          with Query_loop_data_row [OF rc, of rs qe] data_row_nil [OF rc]
          show ?thesis by simp
        next
          case (Some r)
          with Query_loop_data_row [OF rc, of rs qe] data_row [OF rc]
          show ?thesis by simp
        qed
      qed
    qed
  qed
qed

lemma Query_loop_panic_status:
  "Query_loop c rs qe = (Panic p, rs', qe', c') \<Longrightarrow> transactionStatus c' = transactionStatus c"
proof (induction "remaining c" arbitrary: c rs qe rule: less_induct)
  case less
  show ?case
  proof (cases c rs qe rule: Query_loop_cases)
    case (panic e c1)
    with less.prems Connection_receiveMessage_status show ?thesis by fastforce
  next
    case (ready st c1)
    with less.prems show ?thesis by simp
  next
    case (error m c1)
    with less.hyps [of c1 rs "Some (MessageError m)"] less.prems
      Connection_receiveMessage_shrinks [OF error(1)] Connection_receiveMessage_status [OF error(1)]
    show ?thesis by simp
  next
    case (row_description flds c1)
    with less.hyps [of c1 "Some \<lparr>Fields = flds, Rows = [], Result = []\<rparr>" qe] less.prems
      Connection_receiveMessage_shrinks [OF row_description(1)]
      Connection_receiveMessage_status [OF row_description(1)]
    show ?thesis by simp
  next
    case (data_row_nil vals c1)
    with less.prems Connection_receiveMessage_status show ?thesis by fastforce
  next
    case (data_row vals c1 r)
    with less.hyps [of c1 _ qe] less.prems
      Connection_receiveMessage_shrinks [OF data_row(1)]
      Connection_receiveMessage_status [OF data_row(1)]
    show ?thesis by simp
  next
    case (command_complete_nil res c1)
    with less.prems Connection_receiveMessage_status show ?thesis by fastforce
  next
    case (command_complete res c1 r)
    with less.hyps [of c1 _ qe] less.prems
      Connection_receiveMessage_shrinks [OF command_complete(1)]
      Connection_receiveMessage_status [OF command_complete(1)]
    show ?thesis by simp
  next
    case (default_panic msg c1 e c3)
    with less.prems Connection_receiveMessage_status [OF default_panic(1)]
      handleStatelessMessage_status [OF default_panic(2)]
    show ?thesis by simp
  next
    case (default m c1 c3)
    with less.hyps [of c3 rs qe] less.prems
      Connection_receiveMessage_shrinks [OF default(1)]
      Connection_receiveMessage_status [OF default(1)]
      handleStatelessMessage_status [OF default(3)]
      handleStatelessMessage_remaining [OF default(3)]
    show ?thesis by simp
  qed
qed

lemma torn_down_resetConnection: "torn_down (resetConnection c)"
  by (cases "socket c") (simp_all add: torn_down_def resetConnection_def)

lemma resetConnection_status: "transactionStatus (resetConnection c) = transactionStatus c"
  by (simp add: resetConnection_def)

lemma Connection_sendMessage_panics:
  "Connection_sendMessage c msg = (Panic p, c1) \<Longrightarrow> \<exists>e. p = PanicError e"
  by (auto simp: Connection_sendMessage_def nilDereference_def split: option.splits prod.splits)

lemma Close_eq:
  "\<exists>err. Close c = (Return err, resetConnection (snd (Connection_sendMessage c TerminateMessage)))"
proof (cases "Connection_sendMessage c TerminateMessage")
  case (Pair out c1)
  show ?thesis
  proof (cases out)
    case (Panic p)
    with Pair Connection_sendMessage_panics obtain e where "p = PanicError e" by blast
    with Pair Panic show ?thesis by (simp add: Close_def assertError_def)
  next
    case (Return u)
    with Pair show ?thesis by (simp add: Close_def)
  qed
qed

lemma Close_torn_down: "torn_down (snd (Close c))"
  using Close_eq [of c] by (auto simp: torn_down_resetConnection)

lemma Close_status: "transactionStatus (snd (Close c)) = transactionStatus c"
  using Close_eq [of c] Connection_sendMessage_status [of c TerminateMessage]
  by (cases "Connection_sendMessage c TerminateMessage") (auto simp: resetConnection_status)

lemma Query_recover_eq:
  "Query_recover r rs c =
     (case r of
        PanicError e \<Rightarrow> Return (rs, Some e)
      | PanicString s \<Rightarrow>
          Panic (PanicError (RuntimeError
            ''interface conversion: interface {} is string, not error'')),
      snd (Close c))"
  using Close_eq [of c]
  by (auto simp: Query_recover_def assertError_def split: panic_value.splits)

lemma torn_down_send:
  "torn_down c \<Longrightarrow> \<exists>e. Connection_sendMessage c msg = (Panic (PanicError e), c)"
  by (cases "socket c")
    (auto simp: torn_down_def Connection_sendMessage_def SendMessage_def nilDereference_def)

lemma torn_down_Close:
  assumes "torn_down c"
  shows "\<exists>e c2. Close c = (Return (Some e), c2)"
proof -
  from torn_down_send [OF assms] obtain e where
    "Connection_sendMessage c TerminateMessage = (Panic (PanicError e), c)" by blast
  then show ?thesis by (simp add: Close_def assertError_def)
qed

lemma torn_down_Query:
  assumes "torn_down c"
  shows "\<exists>e c2. Query c sql = (Return (None, Some e), c2)"
proof -
  from torn_down_send [OF assms] obtain e where
    "Connection_sendMessage c (QueryMessage sql) = (Panic (PanicError e), c)" by blast
  then show ?thesis by (simp add: Query_def Query_body_def Query_recover_eq)
qed

lemma Query_body_panic_status:
  assumes "Query_body c sql = (Panic p, rs, qe, c1)"
  shows "transactionStatus c1 = transactionStatus c"
proof (cases "Connection_sendMessage c (QueryMessage sql)")
  case (Pair out c0)
  then have s: "transactionStatus c0 = transactionStatus c"
    by (rule Connection_sendMessage_status)
  show ?thesis
  proof (cases out)
    case (Panic e)
    with Pair assms s show ?thesis by (simp add: Query_body_def)
  next
    case (Return u)
    with Pair assms have "Query_loop c0 None None = (Panic p, rs, qe, c1)"
      by (simp add: Query_body_def)
    with s Query_loop_panic_status show ?thesis by fastforce
  qed
qed

text \<open>
  C4 (as amended). When the body of \<open>Query\<close> panics, whatever the value: \<open>Query\<close>
  returns the panic's error beside the resultset as it stood (or panics itself when
  the value is a string), the connection is torn down (socket closed; \<open>parameters\<close>
  empty, \<open>backendPid\<close> and \<open>backendKey\<close> zero), \<open>transactionStatus\<close> keeps the value
  it had before the query, and a following \<open>Query\<close> or \<open>Close\<close> on the connection
  returns an error.
\<close>

theorem query_fatal_teardown:
  assumes "Query_body c sql = (Panic p, rs, qe, c1)"
  shows "fst (Query c sql) =
        (case p of
           PanicError e \<Rightarrow> Return (rs, Some e)
         | PanicString s \<Rightarrow>
             Panic (PanicError (RuntimeError
               ''interface conversion: interface {} is string, not error'')))
    \<and> torn_down (snd (Query c sql))
    \<and> transactionStatus (snd (Query c sql)) = transactionStatus c
    \<and> (\<exists>e c2. Query (snd (Query c sql)) sql2 = (Return (None, Some e), c2))
    \<and> (\<exists>e c2. Close (snd (Query c sql)) = (Return (Some e), c2))"
proof -
  have q: "Query c sql = Query_recover p rs c1"
    using assms by (simp add: Query_def)
  have t: "torn_down (snd (Query c sql))"
    by (simp add: q Query_recover_eq Close_torn_down)
  have "transactionStatus (snd (Query c sql)) = transactionStatus c1"
    by (simp add: q Query_recover_eq Close_status)
  with Query_body_panic_status [OF assms] t torn_down_Query [OF t] torn_down_Close [OF t]
  show ?thesis
    by (simp add: q Query_recover_eq)
qed

lemma empty_stream_Query_body:
  "Query_body (connected (server [])) sql =
     (Panic (PanicError (ErrorString ''EOF'')), None, None,
      connected \<lparr>inbound = [], sent = [QueryMessage sql], closed = False\<rparr>)"
proof -
  let ?c1 = "connected \<lparr>inbound = [], sent = [QueryMessage sql], closed = False\<rparr>"
  have s: "Connection_sendMessage (connected (server [])) (QueryMessage sql) = (Return (), ?c1)"
    by (simp add: Connection_sendMessage_def SendMessage_def connected_def server_def)
  have r: "Connection_receiveMessage ?c1 = (Panic (PanicError (ErrorString ''EOF'')), ?c1)"
    by (simp add: Connection_receiveMessage_def ReadMessage_def receiveMessage_def ReadFull_def
        connected_def)
  show ?thesis
    by (simp add: Query_body_def s Query_loop_panic [OF r])
qed

theorem query_fatal_teardown_witness:
  "Query_body (connected (server [])) (gostr ''select 1'') =
     (Panic (PanicError (ErrorString ''EOF'')), None, None,
      connected \<lparr>inbound = [], sent = [QueryMessage (gostr ''select 1'')], closed = False\<rparr>)
   \<and> fst (Query (connected (server [])) (gostr ''select 1'')) =
       Return (None, Some (ErrorString ''EOF''))
   \<and> torn_down (snd (Query (connected (server [])) (gostr ''select 1'')))
   \<and> transactionStatus (snd (Query (connected (server [])) (gostr ''select 1''))) = of_char CHR ''I''
   \<and> (\<exists>e c2. Query (snd (Query (connected (server [])) (gostr ''select 1''))) (gostr ''select 2'')
          = (Return (None, Some e), c2))
   \<and> (\<exists>e c2. Close (snd (Query (connected (server [])) (gostr ''select 1''))) = (Return (Some e), c2))"
  using query_fatal_teardown [OF empty_stream_Query_body [of "gostr ''select 1''"], of "gostr ''select 2''"]
    empty_stream_Query_body [of "gostr ''select 1''"]
  by (simp add: connected_def)

text \<open>
  C4 (as stated) fails: after a query on a connection whose server has closed its side,
  \<open>Query\<close> returns the read error and the connection is torn down, but
  \<open>transactionStatus\<close> is not zero.
\<close>

theorem teardown_keeps_transaction_status_counterexample:
  "fst (Query (connected (server [])) (gostr ''select 1'')) = Return (None, Some (ErrorString ''EOF''))
   \<and> torn_down (snd (Query (connected (server [])) (gostr ''select 1'')))
   \<and> transactionStatus (snd (Query (connected (server [])) (gostr ''select 1''))) \<noteq> 0"
proof -
  let ?c1 = "connected \<lparr>inbound = [], sent = [QueryMessage (gostr ''select 1'')], closed = False\<rparr>"
  have q: "Query (connected (server [])) (gostr ''select 1'') =
      Query_recover (PanicError (ErrorString ''EOF'')) None ?c1"
    by (simp add: Query_def empty_stream_Query_body)
  have 1: "fst (Query (connected (server [])) (gostr ''select 1'')) =
      Return (None, Some (ErrorString ''EOF''))"
    by (simp add: q Query_recover_eq)
  have 2: "torn_down (snd (Query (connected (server [])) (gostr ''select 1'')))"
    by (simp add: q Query_recover_eq Close_torn_down)
  have "transactionStatus (snd (Query (connected (server [])) (gostr ''select 1''))) =
      transactionStatus ?c1"
    by (simp add: q Query_recover_eq Close_status)
  also have "\<dots> \<noteq> 0" by (simp add: connected_def)
  finally have 3: "transactionStatus (snd (Query (connected (server [])) (gostr ''select 1''))) \<noteq> 0" .
  from 1 2 3 show ?thesis by blast
qed

lemma receiveMessage_frame:
  assumes "\<not> closed r" "inbound r = frame tag body @ rest" "length body + 4 < 2 ^ 32"
    and "messageFactoryMethods (of_char tag) = Some factoryMethod"
  shows "receiveMessage r =
     (case factoryMethod body of
        Panic e \<Rightarrow> (Panic e, r\<lparr>inbound := rest\<rparr>)
      | Return (message, err) \<Rightarrow> (Return (Some message, err), r\<lparr>inbound := rest\<rparr>))"
proof -
  define sz :: uint32 where "sz = of_nat (length body + 4)"
  from assms(3) have "length body + 4 < 2 ^ LENGTH(32)" by simp
  then have u: "unat sz = length body + 4"
    unfolding sz_def by (rule of_nat_inverse [OF refl])
  then have ge: "4 \<le> sz" by (simp add: word_le_nat_alt)
  have i: "inbound r = of_char tag # be32 sz @ (body @ rest)"
    using assms(2) by (simp add: frame_def sz_def)
  have l: "unat sz - 4 \<le> length (body @ rest)" by (simp add: u)
  from receiveMessage_body [OF assms(1) i ge l assms(4)] show ?thesis
    by (simp add: u split: result.splits prod.splits)
qed

lemma initConnection_loop_panic:
  "Connection_receiveMessage c = (Panic e, c1) \<Longrightarrow> initConnection_loop c info = (Panic e, c1)"
  by (subst initConnection_loop.simps) simp

lemma initConnection_loop_ready:
  "Connection_receiveMessage c = (Return (Some (ReadyForQueryMessage st)), c1) \<Longrightarrow>
   initConnection_loop c info = (Return (), c1\<lparr>transactionStatus := st\<rparr>)"
  by (subst initConnection_loop.simps) (simp add: isReadyForQuery_def)

lemma initConnection_loop_auth_ok:
  "Connection_receiveMessage c =
     (Return (Some (AuthenticationRequestMessage AuthenticationOK salt)), c1) \<Longrightarrow>
   initConnection_loop c info = initConnection_loop c1 info"
  by (subst initConnection_loop.simps) (simp add: isReadyForQuery_def)

lemma initConnection_loop_parameter_status:
  "Connection_receiveMessage c = (Return (Some (ParameterStatusMessage name val)), c1) \<Longrightarrow>
   parameters c1 = Some m \<Longrightarrow>
   initConnection_loop c info = initConnection_loop (c1\<lparr>parameters := Some (m(name \<mapsto> val))\<rparr>) info"
  by (subst initConnection_loop.simps) (simp add: isReadyForQuery_def handleStatelessMessage_def)

lemma initConnection_loop_backend_key_data:
  "Connection_receiveMessage c = (Return (Some (BackendKeyDataMessage pid key)), c1) \<Longrightarrow>
   initConnection_loop c info = initConnection_loop (c1\<lparr>backendPid := pid, backendKey := key\<rparr>) info"
  by (subst initConnection_loop.simps) (simp add: isReadyForQuery_def handleStatelessMessage_def)

text \<open>
  C2. When no TLS is configured, the dialled socket is open, and the frames on it after
  the startup request are read as AuthenticationOK, ParameterStatus("x","1"),
  BackendKeyData(42,99) and ReadyForQuery('I'), then \<open>Connect\<close> returns no error and a
  connection whose \<open>parameters\<close> map "x" to "1" and nothing else, whose \<open>backendPid\<close>
  is 42 and \<open>backendKey\<close> 99, and whose \<open>transactionStatus\<close> is 'I'.
\<close>

theorem handshake_script:
  assumes "Dial net (Address info) = Inr r" and "SslConfig info = None" and "\<not> closed r"
    and "delivers (r\<lparr>sent := sent r @ [StartupMessage (User info) (Database info)]\<rparr>)
      [AuthenticationRequestMessage AuthenticationOK None,
       ParameterStatusMessage (gostr ''x'') (gostr ''1''),
       BackendKeyDataMessage 42 99,
       ReadyForQueryMessage (of_char CHR ''I'')] r'"
  shows "Connect net info =
      Return (\<lparr>socket = Some r', parameters = Some [gostr ''x'' \<mapsto> gostr ''1''],
                backendPid = 42, backendKey = 99, transactionStatus = of_char CHR ''I''\<rparr>, None)"
proof -
  let ?r0 = "r\<lparr>sent := sent r @ [StartupMessage (User info) (Database info)]\<rparr>"
  let ?c0 = "\<lparr>socket = Some ?r0, parameters = Some Map.empty, backendPid = 0, backendKey = 0,
    transactionStatus = 0\<rparr>"
  have snd: "Connection_sendMessage (zeroConnection\<lparr>socket := Some r, parameters := Some Map.empty\<rparr>)
      (StartupMessage (User info) (Database info)) = (Return (), ?c0)"
    using assms(3) by (simp add: Connection_sendMessage_def SendMessage_def zeroConnection_def)
  from recv_delivers [of ?c0 ?r0, OF _ assms(4)] obtain r1 where
    m1: "Connection_receiveMessage ?c0 =
      (Return (Some (AuthenticationRequestMessage AuthenticationOK None)), ?c0\<lparr>socket := Some r1\<rparr>)"
    and d1: "delivers r1 [ParameterStatusMessage (gostr ''x'') (gostr ''1''),
       BackendKeyDataMessage 42 99, ReadyForQueryMessage (of_char CHR ''I'')] r'"
    by auto
  let ?c1 = "?c0\<lparr>socket := Some r1\<rparr>"
  from recv_delivers [of ?c1 r1, OF _ d1] obtain r2 where
    m2: "Connection_receiveMessage ?c1 =
      (Return (Some (ParameterStatusMessage (gostr ''x'') (gostr ''1''))), ?c1\<lparr>socket := Some r2\<rparr>)"
    and d2: "delivers r2 [BackendKeyDataMessage 42 99, ReadyForQueryMessage (of_char CHR ''I'')] r'"
    by auto
  let ?c2 = "?c1\<lparr>socket := Some r2, parameters := Some [gostr ''x'' \<mapsto> gostr ''1'']\<rparr>"
  from recv_delivers [of ?c2 r2, OF _ d2] obtain r3 where
    m3: "Connection_receiveMessage ?c2 =
      (Return (Some (BackendKeyDataMessage 42 99)), ?c2\<lparr>socket := Some r3\<rparr>)"
    and d3: "delivers r3 [ReadyForQueryMessage (of_char CHR ''I'')] r'"
    by auto
  let ?c3 = "?c2\<lparr>socket := Some r3, backendPid := 42, backendKey := 99\<rparr>"
  from recv_delivers [of ?c3 r3, OF _ d3] obtain r4 where
    m4: "Connection_receiveMessage ?c3 =
      (Return (Some (ReadyForQueryMessage (of_char CHR ''I''))), ?c3\<lparr>socket := Some r4\<rparr>)"
    and d4: "delivers r4 [] r'"
    by auto
  from d4 have r4: "r4 = r'" by simp
  have "initConnection_loop ?c0 info = initConnection_loop ?c1 info"
    by (rule initConnection_loop_auth_ok [OF m1])
  also have "\<dots> = initConnection_loop ?c2 info"
    using initConnection_loop_parameter_status [OF m2, of Map.empty info] by simp
  also have "\<dots> = initConnection_loop ?c3 info"
    using initConnection_loop_backend_key_data [OF m3, of info] by simp
  also have "\<dots> = (Return (), ?c3\<lparr>socket := Some r4, transactionStatus := of_char CHR ''I''\<rparr>)"
    using initConnection_loop_ready [OF m4, of info] by simp
  finally have "initConnection_loop ?c0 info =
      (Return (), ?c3\<lparr>socket := Some r4, transactionStatus := of_char CHR ''I''\<rparr>)" .
  with snd assms(1,2) r4 show ?thesis
    by (simp add: Connect_def Connect_init_def initConnection_def)
qed

declare delivers.simps(2) [simp del]

lemma delivers_frame:
  assumes "\<not> closed r" "inbound r = frame tag body @ rest" "length body + 4 < 2 ^ 32"
    and "messageFactoryMethods (of_char tag) = Some factoryMethod"
    and "factoryMethod body = Return (m, None)"
    and "delivers (r\<lparr>inbound := rest\<rparr>) ms r'"
  shows "delivers r (m # ms) r'"
  using receiveMessage_frame [OF assms(1-4)] assms(5,6)
  by (simp add: ReadMessage_def delivers.simps(2))



lemma factory_simps:
  "messageFactoryMethods (of_char CHR ''R'') = Some parseAuthenticationRequestMessage"
  "messageFactoryMethods (of_char CHR ''Z'') = Some parseReadyForQueryMessage"
  "messageFactoryMethods (of_char CHR ''E'') = Some parseErrorResponseMessage"
  "messageFactoryMethods (of_char CHR ''I'') = Some parseEmptyQueryMessage"
  "messageFactoryMethods (of_char CHR ''S'') = Some parseParameterStatusMessage"
  "messageFactoryMethods (of_char CHR ''K'') = Some parseBackendKeyDataMessage"
  "messageFactoryMethods (of_char CHR ''T'') = Some parseRowDescriptionMessage"
  "messageFactoryMethods (of_char CHR ''C'') = Some parseCommandCompleteMessage"
  "messageFactoryMethods (of_char CHR ''D'') = Some parseDataRowMessage"
  by (simp_all add: messageFactoryMethods_def)

lemma decodeCString_terminated:
  "0 \<notin> set str \<Longrightarrow> decodeCString (str @ 0 # rest) = Return (Inr str)"
  by (auto simp: decodeCString_eq takeWhile_tail takeWhile_eq_all_conv)

lemma parseAuthenticationRequestMessage_be32:
  "parseAuthenticationRequestMessage (be32 code) = Return (AuthenticationRequestMessage code None, None)"
  using decodeUint32_be32 [of code "[]"] by (simp add: parseAuthenticationRequestMessage_def)

lemma parseReadyForQueryMessage_byte:
  "parseReadyForQueryMessage [st] = Return (ReadyForQueryMessage st, None)"
  by (simp add: parseReadyForQueryMessage_def decodeUint8_eq)

lemma parseParameterStatusMessage_strings:
  "0 \<notin> set name \<Longrightarrow> 0 \<notin> set val \<Longrightarrow>
   parseParameterStatusMessage (name @ [0] @ val @ [0]) = Return (ParameterStatusMessage name val, None)"
  by (simp add: parseParameterStatusMessage_def decodeCString_terminated)

lemma parseBackendKeyDataMessage_be32:
  "parseBackendKeyDataMessage (be32 pid @ be32 key) = Return (BackendKeyDataMessage pid key, None)"
  using decodeUint32_be32 [of key "[]"]
  by (simp add: parseBackendKeyDataMessage_def decodeUint32_be32)

lemma parseCommandCompleteMessage_string:
  "0 \<notin> set res \<Longrightarrow>
   parseCommandCompleteMessage (res @ [0]) = Return (CommandCompleteMessage res, None)"
  by (simp add: parseCommandCompleteMessage_def decodeCString_terminated)

lemma delivers_frame_open:
  assumes "length body + 4 < 2 ^ 32"
    and "messageFactoryMethods (of_char tag) = Some factoryMethod"
    and "factoryMethod body = Return (m, None)"
    and "delivers \<lparr>inbound = rest, sent = s, closed = False\<rparr> ms r'"
  shows "delivers \<lparr>inbound = frame tag body @ rest, sent = s, closed = False\<rparr> (m # ms) r'"
  by (rule delivers_frame [where rest = rest, OF _ _ assms(1-3)]) (simp_all add: assms(4))

lemma delivers_frame_last:
  assumes "length body + 4 < 2 ^ 32"
    and "messageFactoryMethods (of_char tag) = Some factoryMethod"
    and "factoryMethod body = Return (m, None)"
  shows "delivers \<lparr>inbound = frame tag body, sent = s, closed = False\<rparr> [m]
    \<lparr>inbound = [], sent = s, closed = False\<rparr>"
  using delivers_frame_open [OF assms, of "[]" s "[]"] by simp

lemma handshake_bytes_delivered:
  "delivers (server handshake_bytes\<lparr>sent := [StartupMessage u d]\<rparr>)
     [AuthenticationRequestMessage AuthenticationOK None,
      ParameterStatusMessage (gostr ''x'') (gostr ''1''),
      BackendKeyDataMessage 42 99,
      ReadyForQueryMessage (of_char CHR ''I'')]
     \<lparr>inbound = [], sent = [StartupMessage u d], closed = False\<rparr>"
proof -
  have x: "0 \<notin> set (gostr ''x'')" and y: "0 \<notin> set (gostr ''1'')"
    by (simp_all add: gostr_def)
  have frames: "server handshake_bytes\<lparr>sent := [StartupMessage u d]\<rparr> =
      \<lparr>inbound = frame CHR ''R'' (be32 AuthenticationOK)
         @ frame CHR ''S'' (gostr ''x'' @ [0] @ gostr ''1'' @ [0])
         @ frame CHR ''K'' (be32 42 @ be32 99)
         @ frame CHR ''Z'' [of_char CHR ''I''],
       sent = [StartupMessage u d], closed = False\<rparr>"
    by (simp add: server_def handshake_bytes_def)
  show ?thesis
    unfolding frames
    by (intro delivers_frame_open [OF _ factory_simps(1) parseAuthenticationRequestMessage_be32]
        delivers_frame_open [OF _ factory_simps(5) parseParameterStatusMessage_strings [OF x y]]
        delivers_frame_open [OF _ factory_simps(6) parseBackendKeyDataMessage_be32]
        delivers_frame_last [OF _ factory_simps(2) parseReadyForQueryMessage_byte])
      (simp_all add: gostr_def)
qed

theorem handshake_script_witness:
  "Dial (plain_network handshake_bytes) (Address plain_info) = Inr (server handshake_bytes)
   \<and> SslConfig plain_info = None
   \<and> \<not> closed (server handshake_bytes)
   \<and> delivers
       (server handshake_bytes
          \<lparr>sent := sent (server handshake_bytes) @ [StartupMessage (User plain_info) (Database plain_info)]\<rparr>)
       [AuthenticationRequestMessage AuthenticationOK None,
        ParameterStatusMessage (gostr ''x'') (gostr ''1''),
        BackendKeyDataMessage 42 99,
        ReadyForQueryMessage (of_char CHR ''I'')]
       \<lparr>inbound = [], sent = [StartupMessage (User plain_info) (Database plain_info)], closed = False\<rparr>
   \<and> Connect (plain_network handshake_bytes) plain_info =
       Return (\<lparr>socket = Some \<lparr>inbound = [],
                   sent = [StartupMessage (User plain_info) (Database plain_info)], closed = False\<rparr>,
                 parameters = Some [gostr ''x'' \<mapsto> gostr ''1''],
                 backendPid = 42, backendKey = 99, transactionStatus = of_char CHR ''I''\<rparr>, None)"
proof -
  have h1: "Dial (plain_network handshake_bytes) (Address plain_info) = Inr (server handshake_bytes)"
    by (simp add: plain_network_def)
  have h2: "SslConfig plain_info = None" by (simp add: plain_info_def)
  have h3: "\<not> closed (server handshake_bytes)" by (simp add: server_def)
  have h4: "delivers
       (server handshake_bytes
          \<lparr>sent := sent (server handshake_bytes) @ [StartupMessage (User plain_info) (Database plain_info)]\<rparr>)
       [AuthenticationRequestMessage AuthenticationOK None,
        ParameterStatusMessage (gostr ''x'') (gostr ''1''),
        BackendKeyDataMessage 42 99,
        ReadyForQueryMessage (of_char CHR ''I'')]
       \<lparr>inbound = [], sent = [StartupMessage (User plain_info) (Database plain_info)], closed = False\<rparr>"
    using handshake_bytes_delivered [of "User plain_info" "Database plain_info"]
    by (simp add: server_def)
  from h1 h2 h3 h4 handshake_script [OF h1 h2 h3 h4] show ?thesis by (intro conjI)
qed

lemma Connection_sendMessage_open:
  "socket c = Some r \<Longrightarrow> \<not> closed r \<Longrightarrow>
   Connection_sendMessage c msg = (Return (), c\<lparr>socket := Some (r\<lparr>sent := sent r @ [msg]\<rparr>)\<rparr>)"
  by (simp add: Connection_sendMessage_def SendMessage_def)

lemma typeAssertionError:
  "assertError (PanicString s) =
     Panic (PanicError (RuntimeError ''interface conversion: interface {} is string, not error''))"
  by (simp add: assertError_def)

text \<open>
  C6, at the failing input. A frame with a tag that has no factory method, its body
  there, makes \<open>receiveMessage\<close> panic with a string. The frame is not skipped and no
  message is returned, and the connection is torn down; but the deferred handlers of
  \<open>Query\<close> and \<open>Connect\<close> assert that the recovered value is an \<open>error\<close>, so the
  operation does not return an error: it panics with the failed type assertion.
\<close>

theorem unknown_tag_escapes_as_panic:
  assumes "socket c = Some r" and "\<not> closed r" and "inbound r = tag # be32 sz @ rest"
    and "4 \<le> sz" and "unat sz - 4 \<le> length rest" and "messageFactoryMethods tag = None"
  shows "fst (Query c sql) =
        Panic (PanicError (RuntimeError ''interface conversion: interface {} is string, not error''))
    \<and> torn_down (snd (Query c sql))
    \<and> (Dial net (Address info) = Inr r \<and> SslConfig info = None \<longrightarrow>
        Connect net info =
          Panic (PanicError (RuntimeError ''interface conversion: interface {} is string, not error'')))"
proof -
  have recv: "Connection_receiveMessage (c'\<lparr>socket := Some (r\<lparr>sent := sent r @ [msg]\<rparr>)\<rparr>) =
      (Panic (PanicString ''Unknown message type: %c''),
       c'\<lparr>socket := Some (r\<lparr>sent := sent r @ [msg], inbound := drop (unat sz - 4) rest\<rparr>)\<rparr>)"
    for c' :: Connection and msg
    using receiveMessage_unknown_tag [of "r\<lparr>sent := sent r @ [msg]\<rparr>" tag sz rest] assms(2-6)
    by (simp add: Connection_receiveMessage_def ReadMessage_def)
  have "Query_body c sql =
      (Panic (PanicString ''Unknown message type: %c''), None, None,
       c\<lparr>socket := Some (r\<lparr>sent := sent r @ [QueryMessage sql],
         inbound := drop (unat sz - 4) rest\<rparr>)\<rparr>)"
    using Query_loop_panic [OF recv [where c' = c and msg = "QueryMessage sql"], of None None]
    by (simp add: Query_body_def Connection_sendMessage_open [OF assms(1,2)])
  then have q: "fst (Query c sql) =
        Panic (PanicError (RuntimeError ''interface conversion: interface {} is string, not error''))
    \<and> torn_down (snd (Query c sql))"
    by (simp add: Query_def Query_recover_eq Close_torn_down)
  have "Connect net info =
      Panic (PanicError (RuntimeError ''interface conversion: interface {} is string, not error''))"
    if d: "Dial net (Address info) = Inr r" and s: "SslConfig info = None"
  proof -
    let ?c0 = "zeroConnection\<lparr>socket := Some r, parameters := Some Map.empty\<rparr>"
    have "initConnection ?c0 info =
      (Panic (PanicString ''Unknown message type: %c''),
       ?c0\<lparr>socket := Some (r\<lparr>sent := sent r @ [StartupMessage (User info) (Database info)],
         inbound := drop (unat sz - 4) rest\<rparr>)\<rparr>)"
      using initConnection_loop_panic [OF recv [where c' = ?c0 and msg = "StartupMessage (User info) (Database info)"], of info]
        Connection_sendMessage_open [of ?c0 r "StartupMessage (User info) (Database info)"] assms(2)
      by (simp add: initConnection_def)
    with d s show ?thesis
      by (simp add: Connect_def Connect_init_def Connect_recover_def typeAssertionError)
  qed
  with q show ?thesis by blast
qed

theorem unknown_tag_escapes_as_panic_witness:
  "socket (connected (server (of_char CHR ''X'' # be32 4 @ []))) = Some (server (of_char CHR ''X'' # be32 4 @ []))
   \<and> \<not> closed (server (of_char CHR ''X'' # be32 4 @ []))
   \<and> inbound (server (of_char CHR ''X'' # be32 4 @ [])) = of_char CHR ''X'' # be32 4 @ []
   \<and> (4 :: uint32) \<le> 4 \<and> unat (4 :: uint32) - 4 \<le> length ([] :: byte list)
   \<and> messageFactoryMethods (of_char CHR ''X'') = None
   \<and> Dial (plain_network (of_char CHR ''X'' # be32 4 @ [])) (Address plain_info)
       = Inr (server (of_char CHR ''X'' # be32 4 @ []))
   \<and> SslConfig plain_info = None
   \<and> fst (Query (connected (server (of_char CHR ''X'' # be32 4 @ []))) (gostr ''select 1'')) =
        Panic (PanicError (RuntimeError ''interface conversion: interface {} is string, not error''))
   \<and> torn_down (snd (Query (connected (server (of_char CHR ''X'' # be32 4 @ []))) (gostr ''select 1'')))
   \<and> Connect (plain_network (of_char CHR ''X'' # be32 4 @ [])) plain_info =
        Panic (PanicError (RuntimeError ''interface conversion: interface {} is string, not error''))"
proof -
  let ?b = "of_char CHR ''X'' # be32 4 @ [] :: byte list"
  have h1: "socket (connected (server ?b)) = Some (server ?b)" by (simp add: connected_def)
  have h2: "\<not> closed (server ?b)" by (simp add: server_def)
  have h3: "inbound (server ?b) = of_char CHR ''X'' # be32 4 @ []" by (simp add: server_def)
  have h4: "(4 :: uint32) \<le> 4" by simp
  have h5: "unat (4 :: uint32) - 4 \<le> length ([] :: byte list)" by simp
  have h6: "messageFactoryMethods (of_char CHR ''X'') = None"
    by (simp add: messageFactoryMethods_def)
  have h7: "Dial (plain_network ?b) (Address plain_info) = Inr (server ?b)"
    by (simp add: plain_network_def)
  have h8: "SslConfig plain_info = None" by (simp add: plain_info_def)
  note t = unknown_tag_escapes_as_panic [OF h1 h2 h3 h4 h5 h6, of "gostr ''select 1''" "plain_network ?b" plain_info]
  from t have c1: "fst (Query (connected (server ?b)) (gostr ''select 1'')) =
        Panic (PanicError (RuntimeError ''interface conversion: interface {} is string, not error''))"
    by (rule conjunct1)
  from t have c2: "torn_down (snd (Query (connected (server ?b)) (gostr ''select 1'')))"
    by (rule conjunct2 [THEN conjunct1])
  from t [THEN conjunct2, THEN conjunct2] h7 h8 have c3: "Connect (plain_network ?b) plain_info =
        Panic (PanicError (RuntimeError ''interface conversion: interface {} is string, not error''))"
    by blast
  from h1 h2 h3 h4 h5 h6 h7 h8 c1 c2 c3 show ?thesis by (intro conjI)
qed

text \<open>
  C5, at the failing input. When the first frame of the response to a query is a
  command-complete message (no row description before it), the store into the \<open>nil\<close>
  resultset panics: \<open>Query\<close> returns no resultset and the runtime's error, and the
  connection is torn down.
\<close>

theorem command_complete_without_rows_fails:
  assumes "socket c = Some r" and "\<not> closed r"
    and "delivers (r\<lparr>sent := sent r @ [QueryMessage sql]\<rparr>) (CommandCompleteMessage res # ms) r'"
  shows "fst (Query c sql) = Return (None, Some (RuntimeError
          ''invalid memory address or nil pointer dereference''))
    \<and> torn_down (snd (Query c sql))"
proof -
  let ?c0 = "c\<lparr>socket := Some (r\<lparr>sent := sent r @ [QueryMessage sql]\<rparr>)\<rparr>"
  from recv_delivers [of ?c0 _ "CommandCompleteMessage res" ms r', OF _ assms(3)] obtain r1 where
    m: "Connection_receiveMessage ?c0 = (Return (Some (CommandCompleteMessage res)), ?c0\<lparr>socket := Some r1\<rparr>)"
    by auto
  have "Query_body c sql = (Panic nilDereference, None, None, ?c0\<lparr>socket := Some r1\<rparr>)"
    using Query_loop_command_complete [OF m, of None None]
    by (simp add: Query_body_def Connection_sendMessage_open [OF assms(1,2)])
  then show ?thesis
    by (simp add: Query_def Query_recover_eq Close_torn_down nilDereference_def)
qed










lemma rows_match_skip:
  "\<not> (case m of RowDescriptionMessage flds \<Rightarrow> True | DataRowMessage vals \<Rightarrow> True | _ \<Rightarrow> False) \<Longrightarrow>
   rows_match n (m # ms) = rows_match n ms"
  by (cases m) simp_all






lemma command_only_bytes_delivered:
  "delivers (server command_only_bytes\<lparr>sent := sent (server command_only_bytes) @ [q]\<rparr>)
     (CommandCompleteMessage (gostr ''INSERT 0 1'') # [ReadyForQueryMessage (of_char CHR ''I'')])
     \<lparr>inbound = [], sent = [q], closed = False\<rparr>"
proof -
  have x: "0 \<notin> set (gostr ''INSERT 0 1'')" by (simp add: gostr_def)
  have frames: "server command_only_bytes\<lparr>sent := sent (server command_only_bytes) @ [q]\<rparr> =
      \<lparr>inbound = frame CHR ''C'' (gostr ''INSERT 0 1'' @ [0]) @ frame CHR ''Z'' [of_char CHR ''I''],
       sent = [q], closed = False\<rparr>"
    by (simp add: server_def command_only_bytes_def)
  show ?thesis
    unfolding frames
    by (intro delivers_frame_open [OF _ factory_simps(8) parseCommandCompleteMessage_string [OF x]]
        delivers_frame_last [OF _ factory_simps(2) parseReadyForQueryMessage_byte])
      (simp_all add: gostr_def)
qed

theorem command_complete_without_rows_fails_witness:
  "socket (connected (server command_only_bytes)) = Some (server command_only_bytes)
   \<and> \<not> closed (server command_only_bytes)
   \<and> delivers
       (server command_only_bytes
          \<lparr>sent := sent (server command_only_bytes) @ [QueryMessage (gostr ''insert into t values (1)'')]\<rparr>)
       (CommandCompleteMessage (gostr ''INSERT 0 1'') # [ReadyForQueryMessage (of_char CHR ''I'')])
       \<lparr>inbound = [], sent = [QueryMessage (gostr ''insert into t values (1)'')], closed = False\<rparr>
   \<and> fst (Query (connected (server command_only_bytes)) (gostr ''insert into t values (1)'')) =
        Return (None, Some (RuntimeError ''invalid memory address or nil pointer dereference''))
   \<and> torn_down (snd (Query (connected (server command_only_bytes)) (gostr ''insert into t values (1)'')))"
proof -
  let ?c = "connected (server command_only_bytes)"
  have h1: "socket ?c = Some (server command_only_bytes)" by (simp add: connected_def)
  have h2: "\<not> closed (server command_only_bytes)" by (simp add: server_def)
  note h3 = command_only_bytes_delivered [of "QueryMessage (gostr ''insert into t values (1)'')"]
  note t = command_complete_without_rows_fails [OF h1 h2 h3]
  from h1 h2 h3 t [THEN conjunct1] t [THEN conjunct2] show ?thesis by (intro conjI)
qed




subsection \<open>Data rows at the connection\<close>

lemma Connection_receiveMessage_truncated_row:
  assumes "list_all encodable pre" "length pre < unat n"
    and "sz \<noteq> 0xffffffff" "length rest < unat sz"
    and "socket c = Some r" "\<not> closed r"
    and "inbound r = frame CHR ''D'' (be16 n @ concat (map encodeValue pre) @ be32 sz @ rest) @ after"
    and "length (be16 n @ concat (map encodeValue pre) @ be32 sz @ rest) + 4 < 2 ^ 32"
  shows "fst (Connection_receiveMessage c) =
      Panic (PanicError (ErrorString ''parseDataRowMessage: truncated message''))"
  using receiveMessage_frame [OF assms(6,7,8) factory_simps(9)]
    parseDataRowMessage_truncated_at [OF assms(1-4)] assms(5)
  by (simp add: Connection_receiveMessage_def ReadMessage_def)

text \<open>
  C3. In a data-row body that announces \<open>n\<close> values and starts with the encodings of
  the values \<open>pre\<close> (fewer than \<open>n\<close>), whatever follows: when the next length field
  is \<open>0xFFFFFFFF\<close> the message decoded has \<open>nil\<close> (\<open>None\<close>) at that position; when
  the next length field is 0 it has the empty slice there, which is not \<open>nil\<close>; and when
  the next length (not the NULL sentinel) exceeds the bytes left in the body, decoding
  returns the error "parseDataRowMessage: truncated message", and
  \<open>Connection.receiveMessage\<close>, reading a frame with this body, panics with that error:
  the values decoded before it reach no caller.
\<close>

theorem data_row_null_and_truncated:
  assumes "list_all encodable pre" and "length pre < unat n"
  shows "(\<exists>vs e. parseDataRowMessage (be16 n @ concat (map encodeValue pre) @ be32 0xffffffff @ rest)
          = Return (DataRowMessage vs, e)
        \<and> length vs = unat n \<and> take (length pre) vs = pre \<and> vs ! length pre = None)
    \<and> (\<exists>vs e. parseDataRowMessage (be16 n @ concat (map encodeValue pre) @ be32 0 @ rest)
          = Return (DataRowMessage vs, e)
        \<and> length vs = unat n \<and> take (length pre) vs = pre \<and> vs ! length pre = Some [])
    \<and> (sz \<noteq> 0xffffffff \<and> length rest < unat sz \<longrightarrow>
        parseDataRowMessage (be16 n @ concat (map encodeValue pre) @ be32 sz @ rest) =
          Return (DataRowMessage (pre @ replicate (unat n - length pre) None),
            Some (ErrorString ''parseDataRowMessage: truncated message'')))
    \<and> (sz \<noteq> 0xffffffff \<and> length rest < unat sz \<and> socket c = Some r \<and> \<not> closed r
        \<and> inbound r = frame CHR ''D'' (be16 n @ concat (map encodeValue pre) @ be32 sz @ rest) @ after
        \<and> length (be16 n @ concat (map encodeValue pre) @ be32 sz @ rest) + 4 < 2 ^ 32 \<longrightarrow>
        fst (Connection_receiveMessage c) =
          Panic (PanicError (ErrorString ''parseDataRowMessage: truncated message'')))"
  using parseDataRowMessage_null_at [OF assms] parseDataRowMessage_empty_at [OF assms]
    parseDataRowMessage_truncated_at [OF assms] Connection_receiveMessage_truncated_row [OF assms]
  by blast

theorem data_row_null_and_truncated_witness:
  "list_all encodable [Some [0x35 :: byte]] \<and> length [Some [0x35 :: byte]] < unat (2 :: uint16)
   \<and> (\<exists>vs e. parseDataRowMessage
          (be16 2 @ concat (map encodeValue [Some [0x35]]) @ be32 0xffffffff @ [0x41, 0x42])
          = Return (DataRowMessage vs, e)
        \<and> length vs = unat (2 :: uint16) \<and> take (length [Some [0x35 :: byte]]) vs = [Some [0x35]]
        \<and> vs ! length [Some [0x35 :: byte]] = None)
   \<and> (\<exists>vs e. parseDataRowMessage
          (be16 2 @ concat (map encodeValue [Some [0x35]]) @ be32 0 @ [0x41, 0x42])
          = Return (DataRowMessage vs, e)
        \<and> length vs = unat (2 :: uint16) \<and> take (length [Some [0x35 :: byte]]) vs = [Some [0x35]]
        \<and> vs ! length [Some [0x35 :: byte]] = Some [])
   \<and> parseDataRowMessage
          (be16 2 @ concat (map encodeValue [Some [0x35]]) @ be32 5 @ [0x41, 0x42]) =
        Return (DataRowMessage
            ([Some [0x35]] @ replicate (unat (2 :: uint16) - length [Some [0x35 :: byte]]) None),
          Some (ErrorString ''parseDataRowMessage: truncated message''))
   \<and> fst (Connection_receiveMessage (connected (server
          (frame CHR ''D'' (be16 2 @ concat (map encodeValue [Some [0x35]]) @ be32 5 @ [0x41, 0x42])
           @ [])))) =
        Panic (PanicError (ErrorString ''parseDataRowMessage: truncated message''))"
proof -
  let ?body = "be16 2 @ concat (map encodeValue [Some [0x35]]) @ be32 5 @ [0x41, 0x42] :: byte list"
  let ?r = "server (frame CHR ''D'' ?body @ [])"
  have h1: "list_all encodable [Some [0x35 :: byte]]" by (simp add: encodable_def)
  have h2: "length [Some [0x35 :: byte]] < unat (2 :: uint16)" by simp
  have s: "(5 :: uint32) \<noteq> 0xffffffff \<and> length [0x41 :: byte, 0x42] < unat (5 :: uint32)" by simp
  have f: "socket (connected ?r) = Some ?r \<and> \<not> closed ?r
      \<and> inbound ?r = frame CHR ''D'' ?body @ [] \<and> length ?body + 4 < 2 ^ 32"
    by (simp add: connected_def server_def encodeValue_def)
  note t = data_row_null_and_truncated [OF h1 h2, of "[0x41, 0x42]" 5 "connected ?r" ?r "[]"]
  from t have c1: "\<exists>vs e. parseDataRowMessage
          (be16 2 @ concat (map encodeValue [Some [0x35]]) @ be32 0xffffffff @ [0x41, 0x42])
          = Return (DataRowMessage vs, e)
        \<and> length vs = unat (2 :: uint16) \<and> take (length [Some [0x35 :: byte]]) vs = [Some [0x35]]
        \<and> vs ! length [Some [0x35 :: byte]] = None" by (rule conjunct1)
  from t have c2: "\<exists>vs e. parseDataRowMessage
          (be16 2 @ concat (map encodeValue [Some [0x35]]) @ be32 0 @ [0x41, 0x42])
          = Return (DataRowMessage vs, e)
        \<and> length vs = unat (2 :: uint16) \<and> take (length [Some [0x35 :: byte]]) vs = [Some [0x35]]
        \<and> vs ! length [Some [0x35 :: byte]] = Some []"
    by (rule conjunct2 [THEN conjunct1])
  from t [THEN conjunct2, THEN conjunct2, THEN conjunct1] s have c3: "parseDataRowMessage ?body =
        Return (DataRowMessage
            ([Some [0x35]] @ replicate (unat (2 :: uint16) - length [Some [0x35 :: byte]]) None),
          Some (ErrorString ''parseDataRowMessage: truncated message''))"
    by (rule mp)
  from t [THEN conjunct2, THEN conjunct2, THEN conjunct2] s f
  have c4: "fst (Connection_receiveMessage (connected ?r)) =
        Panic (PanicError (ErrorString ''parseDataRowMessage: truncated message''))"
    by blast
  from h1 h2 c1 c2 c3 c4 show ?thesis by (intro conjI)
qed

end
